theory Spec2Isabelle
  imports Complex_Main
begin

section \<open>Data model (prisma/schema.prisma)\<close>

text \<open>
  Identifiers are uuid strings in the source. Here they are natural numbers, and
  \<open>uuid()\<close> takes a fresh one from a counter kept in the store. A falsy identifier of a
  request (undefined, null or the empty string) is \<open>None\<close>. Money is
  \<open>Prisma.Decimal\<close>, an arbitrary-precision decimal: a rational number here. That is the
  type of the values in the service code; the arithmetic that the database does on a stored
  amount is a different one, given in the section on SQLite below.
\<close>

type_synonym ident = nat
type_synonym Decimal = rat

datatype AccountType =
  CHECKING | SAVINGS | CREDIT_CARD | CASH | LINE_OF_CREDIT
  | INVESTMENT | MORTGAGE | OTHER_ASSET | OTHER_LIABILITY

datatype ClearedStatus = CLEARED | UNCLEARED | RECONCILED

datatype GoalType = TARGET_BALANCE | TARGET_BALANCE_BY_DATE | MONTHLY_FUNDING

text \<open>
  A JavaScript \<open>Date\<close> in local time: the full year, the month index (0 to 11, as
  \<open>getMonth()\<close> returns it) and the rest of the instant inside that month.
\<close>

record JsDate =
  getFullYear :: int
  getMonth :: int
  withinMonth :: nat

record Budget =
  budget_userId :: ident

record Account =
  acc_id :: ident
  acc_type :: AccountType
  acc_onBudget :: bool
  acc_balance :: Decimal
  acc_clearedBalance :: Decimal
  acc_unclearedBalance :: Decimal
  acc_budgetId :: ident
  acc_paymentCategoryId :: "ident option"

record CategoryGroup =
  cg_id :: ident
  cg_name :: string
  cg_budgetId :: ident

record Category =
  cat_id :: ident
  cat_name :: string
  cat_categoryGroupId :: ident

record Payee =
  payee_id :: ident
  payee_name :: string
  payee_budgetId :: ident

record Transaction =
  tx_id :: ident
  tx_date :: JsDate
  tx_amount :: Decimal
  tx_memo :: "string option"
  tx_cleared :: ClearedStatus
  tx_approved :: bool
  tx_isTransfer :: bool
  tx_transferAccountId :: "ident option"
  tx_transferGroupId :: "ident option"
  tx_isSplit :: bool
  tx_accountId :: ident
  tx_payeeId :: "ident option"
  tx_categoryId :: "ident option"
  tx_budgetId :: ident

record SplitTransaction =
  split_id :: ident
  split_amount :: Decimal
  split_memo :: "string option"
  split_transactionId :: ident
  split_categoryId :: ident

record Goal =
  goal_id :: ident
  goal_name :: "string option"
  goal_type :: GoalType
  goal_targetAmount :: "Decimal option"
  goal_targetDate :: "string option"
  goal_monthlyFundingAmount :: "Decimal option"
  goal_categoryId :: ident

text \<open>
  The database. Budgets, goals and budget entries are maps from a unique key: budgets by
  id, goals by \<open>categoryId\<close> (\<open>@unique\<close>), budget entries by
  \<open>(categoryId, year, month)\<close> (\<open>@@unique\<close>; the value is \<open>assignedAmount\<close>). The other
  tables are lists of rows, and \<open>findUnique\<close> by id is \<open>find\<close>.
\<close>

record store =
  budgets :: "ident \<rightharpoonup> Budget"
  accounts :: "Account list"
  categoryGroups :: "CategoryGroup list"
  categories :: "Category list"
  budgetEntries :: "(ident \<times> int \<times> int) \<rightharpoonup> Decimal"
  payees :: "Payee list"
  transactions :: "Transaction list"
  splitTransactions :: "SplitTransaction list"
  goals :: "ident \<rightharpoonup> Goal"
  nextId :: nat

section \<open>Errors and the database transaction\<close>

datatype error = HttpException nat string | PrismaError string

text \<open>
  An \<open>async\<close> function that runs on a transaction client reads and writes the store and
  may throw: it maps the store to an error, or to its result and the new store.
\<close>

type_synonym 'a io = "store \<Rightarrow> error + 'a \<times> store"

definition await :: "'a io \<Rightarrow> ('a \<Rightarrow> 'b io) \<Rightarrow> 'b io" where
  "await m f = (\<lambda>s. case m s of Inl e \<Rightarrow> Inl e | Inr (a, s') \<Rightarrow> f a s')"

definition throw :: "error \<Rightarrow> 'a io" where
  "throw e = (\<lambda>s. Inl e)"

definition resolve :: "'a \<Rightarrow> 'a io" where
  "resolve a = (\<lambda>s. Inr (a, s))"

text \<open>
  \<open>prisma.$transaction\<close>: the writes of the callback are committed when it returns and
  rolled back when it throws.
\<close>

definition dollar_transaction :: "'a io \<Rightarrow> store \<Rightarrow> (error + 'a) \<times> store" where
  "dollar_transaction m s = (case m s of Inl e \<Rightarrow> (Inl e, s) | Inr (a, s') \<Rightarrow> (Inr a, s'))"

text \<open>\<open>uuid()\<close>: a fresh identifier.\<close>

definition uuid :: "ident io" where
  "uuid = (\<lambda>s. Inr (nextId s, s\<lparr>nextId := Suc (nextId s)\<rparr>))"

text \<open>\<open>account.findUnique({ where: { id } })\<close>.\<close>

definition findAccount :: "store \<Rightarrow> ident \<Rightarrow> Account option" where
  "findAccount s accountId = find (\<lambda>a. acc_id a = accountId) (accounts s)"

section \<open>SQLite arithmetic on a Decimal column (prisma/schema.prisma)\<close>

text \<open>
  The datasource of the schema is \<open>provider = "sqlite"\<close>. SQLite has no decimal type: a
  \<open>Decimal\<close> field is a column that holds an IEEE 754 binary64 number, and the arithmetic of
  \<open>{ increment: d }\<close>, \<open>{ decrement: d }\<close> and of an aggregate \<open>_sum\<close> is done by the
  database on such numbers, not by the decimal library of the service code.

  \<open>binary64 x\<close> is the binary64 number nearest to \<open>x\<close>, ties to the even significand:
  \<open>x\<close> is scaled to \<open>m * 2 ^ e\<close> with \<open>1 \<le> m < 2\<close> (or \<open>e = - 1022\<close> and \<open>m < 1\<close>, a
  subnormal number) and \<open>m\<close> is rounded to 52 binary places. Numbers of magnitude
  \<open>2 ^ 1024\<close> and beyond, which binary64 turns into infinity, are outside the model.
\<close>

definition roundHalfEven :: "rat \<Rightarrow> int" where
  "roundHalfEven x =
     (let n = \<lfloor>x\<rfloor>; r = x - of_int n
      in if r < 1 / 2 then n else if 1 / 2 < r then n + 1 else if even n then n else n + 1)"

function scaleDown :: "rat \<Rightarrow> rat \<Rightarrow> int \<Rightarrow> rat \<times> int" where
  "scaleDown b x e = (if 2 \<le> b \<and> b \<le> x then scaleDown b (x / b) (e + 1) else (x, e))"
  by pat_completeness auto
termination
proof (relation "measure (\<lambda>(b, x, e). nat \<lfloor>x\<rfloor>)", goal_cases)
  case 1
  show ?case by simp
next
  case (2 b x e)
  then have b: "2 \<le> b" and x: "2 \<le> x" by auto
  have "x / b \<le> x / 2" using b x by (intro divide_left_mono) auto
  also have "\<dots> \<le> x - 1" using x by simp
  finally have "\<lfloor>x / b\<rfloor> \<le> \<lfloor>x - 1\<rfloor>" by (rule floor_mono)
  moreover have "0 < \<lfloor>x\<rfloor>" using x by simp
  ultimately show ?case by simp
qed

function scaleUp :: "rat \<Rightarrow> int \<Rightarrow> rat \<Rightarrow> int \<Rightarrow> rat \<times> int" where
  "scaleUp b emin x e =
     (if x < 1 \<and> emin < e then scaleUp b emin (b * x) (e - 1) else (x, e))"
  by pat_completeness auto
termination
  by (relation "measure (\<lambda>(b, emin, x, e). nat (e - emin))") auto

definition radixPower :: "rat \<Rightarrow> int \<Rightarrow> rat" where
  "radixPower b e = (if 0 \<le> e then b ^ nat e else 1 / b ^ nat (- e))"

definition binary64 :: "rat \<Rightarrow> rat" where
  "binary64 x =
     (if x = 0 then 0
      else
        let (m, e) = (case scaleDown 2 \<bar>x\<bar> 0 of (y, k) \<Rightarrow> scaleUp 2 (- 1022) y k)
        in sgn x * of_int (roundHalfEven (m * 2 ^ 52)) * radixPower 2 (e - 52))"

text \<open>
  Read back, a stored number is the shortest decimal that denotes it, the way the number
  prints: \<open>decimalDigits n x\<close> is \<open>x\<close> rounded to \<open>n\<close> digits after its first significant
  digit, and 17 significant digits always denote the number. A decimal written by
  \<open>create\<close> or \<open>update\<close> is taken to be read back as it was written, which is so for
  decimals of up to 15 significant digits.
\<close>

definition decimalDigits :: "nat \<Rightarrow> rat \<Rightarrow> rat" where
  "decimalDigits n x =
     (if x = 0 then 0
      else
        let (m, e) = (case scaleDown 10 \<bar>x\<bar> 0 of (y, k) \<Rightarrow> scaleUp 10 (- 400) y k)
        in sgn x * of_int (roundHalfEven (m * 10 ^ n)) / 10 ^ n * radixPower 10 e)"

definition shortestDecimal :: "rat \<Rightarrow> Decimal" where
  "shortestDecimal x =
     (case find (\<lambda>n. binary64 (decimalDigits n x) = x)
             [0, 1, 2, 3, 4, 5, 6, 7, 8, 9, 10, 11, 12, 13, 14, 15] of
        Some n \<Rightarrow> decimalDigits n x
      | None \<Rightarrow> decimalDigits 16 x)"

text \<open>
  \<open>column + d\<close> and \<open>column - d\<close> as the database computes them: both operands as binary64
  numbers, the result rounded to binary64.
\<close>

definition sqliteAdd :: "Decimal \<Rightarrow> Decimal \<Rightarrow> Decimal" where
  "sqliteAdd a b = shortestDecimal (binary64 (binary64 a + binary64 b))"

definition sqliteSub :: "Decimal \<Rightarrow> Decimal \<Rightarrow> Decimal" where
  "sqliteSub a b = shortestDecimal (binary64 (binary64 a - binary64 b))"

text \<open>
  \<open>SUM(amount)\<close> over the rows: the running total is a binary64 number, and each row is
  added to it in turn. For one row and for two rows the result is the same when the
  database carries a correction term along with the total.
\<close>

definition sqliteSum :: "Decimal list \<Rightarrow> Decimal" where
  "sqliteSum amounts =
     shortestDecimal (foldl (\<lambda>total a. binary64 (total + binary64 a)) 0 amounts)"

section \<open>BudgetService (src/budget/services/budget.service.ts)\<close>

definition getBudgetById :: "ident \<Rightarrow> ident \<Rightarrow> Budget io" where
  "getBudgetById userId budgetId = (\<lambda>s.
     case budgets s budgetId of
       None \<Rightarrow> Inl (HttpException 404 ''Budget not found'')
     | Some budget \<Rightarrow>
         if budget_userId budget \<noteq> userId
         then Inl (HttpException 403 ''Forbidden: You do not own this budget'')
         else Inr (budget, s))"

text \<open>
  \<open>category.findUnique\<close> with its \<open>categoryGroup.budgetId\<close> selected: the budget of a
  category, through its group.
\<close>

definition categoryBudgetId :: "store \<Rightarrow> ident \<Rightarrow> ident option" where
  "categoryBudgetId s categoryId =
     (case find (\<lambda>c. cat_id c = categoryId) (categories s) of
        None \<Rightarrow> None
      | Some c \<Rightarrow>
          (case find (\<lambda>g. cg_id g = cat_categoryGroupId c) (categoryGroups s) of
             None \<Rightarrow> None
           | Some g \<Rightarrow> Some (cg_budgetId g)))"

definition categoryNotFound :: error where
  "categoryNotFound = HttpException 404 ''Category not found in budget''"

text \<open>The entry is identified by its unique key; the result is the key and the amount.\<close>

definition getOrCreateBudgetEntry ::
  "ident \<Rightarrow> ident \<Rightarrow> int \<Rightarrow> int \<Rightarrow> ((ident \<times> int \<times> int) \<times> Decimal) io" where
  "getOrCreateBudgetEntry budgetId categoryId year month = (\<lambda>s.
     if categoryBudgetId s categoryId \<noteq> Some budgetId then Inl categoryNotFound
     else
       (case budgetEntries s (categoryId, year, month) of
          Some assignedAmount \<Rightarrow> Inr (((categoryId, year, month), assignedAmount), s)
        | None \<Rightarrow>
            Inr (((categoryId, year, month), 0),
                 s\<lparr>budgetEntries := (budgetEntries s)((categoryId, year, month) \<mapsto> 0)\<rparr>)))"

text \<open>
  \<open>budgetEntry.update\<close> with \<open>{ increment: d }\<close> and with \<open>{ decrement: d }\<close>: the
  database adds \<open>d\<close> to, or subtracts it from, the stored amount of the row; Prisma throws
  when the row is absent.
\<close>

definition increment :: "(ident \<times> int \<times> int) \<Rightarrow> Decimal \<Rightarrow> unit io" where
  "increment entryId d = (\<lambda>s.
     case budgetEntries s entryId of
       None \<Rightarrow> Inl (PrismaError ''Record to update not found'')
     | Some v \<Rightarrow> Inr ((), s\<lparr>budgetEntries := (budgetEntries s)(entryId \<mapsto> sqliteAdd v d)\<rparr>))"

definition decrement :: "(ident \<times> int \<times> int) \<Rightarrow> Decimal \<Rightarrow> unit io" where
  "decrement entryId d = (\<lambda>s.
     case budgetEntries s entryId of
       None \<Rightarrow> Inl (PrismaError ''Record to update not found'')
     | Some v \<Rightarrow> Inr ((), s\<lparr>budgetEntries := (budgetEntries s)(entryId \<mapsto> sqliteSub v d)\<rparr>))"

record MoveMoneyDto =
  fromCategoryId :: ident
  toCategoryId :: ident
  mm_year :: int
  mm_month :: int
  moveAmount :: Decimal

definition moveMoney :: "ident \<Rightarrow> ident \<Rightarrow> MoveMoneyDto \<Rightarrow> store \<Rightarrow> (error + unit) \<times> store" where
  "moveMoney userId budgetId moveDto s =
     (if fromCategoryId moveDto = toCategoryId moveDto
      then (Inl (HttpException 400 ''Cannot move money to the same category''), s)
      else if moveAmount moveDto < 0 \<or> moveAmount moveDto = 0
      then (Inl (HttpException 400 ''Move amount must be positive''), s)
      else dollar_transaction
        (await (getBudgetById userId budgetId) (\<lambda>_.
         await (getOrCreateBudgetEntry budgetId (fromCategoryId moveDto)
                  (mm_year moveDto) (mm_month moveDto)) (\<lambda>fromEntry.
         await (getOrCreateBudgetEntry budgetId (toCategoryId moveDto)
                  (mm_year moveDto) (mm_month moveDto)) (\<lambda>toEntry.
         if snd fromEntry < moveAmount moveDto
         then throw (HttpException 400 ''Insufficient assigned amount in source category'')
         else
           await (decrement (fst fromEntry) (moveAmount moveDto)) (\<lambda>_.
           increment (fst toEntry) (moveAmount moveDto)))))) s)"

text \<open>
  \<open>Decimal.isNegative\<close> and \<open>Decimal.isPositive\<close> test the sign field of the number,
  which is positive for a stored zero.
\<close>

definition isNegative :: "Decimal \<Rightarrow> bool" where
  "isNegative d = (d < 0)"

definition isPositive :: "Decimal \<Rightarrow> bool" where
  "isPositive d = (0 \<le> d)"

definition isZero :: "Decimal \<Rightarrow> bool" where
  "isZero d = (d = 0)"

definition adjustBudgetsForCreditSpending ::
  "ident \<Rightarrow> ident \<Rightarrow> ident \<Rightarrow> Decimal \<Rightarrow> int \<Rightarrow> int \<Rightarrow> unit io" where
  "adjustBudgetsForCreditSpending budgetId spendingCategoryId paymentCategoryId amount year month =
     (if isNegative amount \<or> isZero amount then resolve ()
      else if spendingCategoryId = paymentCategoryId then resolve ()
      else
        await (getOrCreateBudgetEntry budgetId spendingCategoryId year month) (\<lambda>spendingEntry.
        await (getOrCreateBudgetEntry budgetId paymentCategoryId year month) (\<lambda>paymentEntry.
        let availableToMove = max 0 (snd spendingEntry);
            amountToMove = min amount availableToMove
        in
          await (decrement (fst spendingEntry) amount) (\<lambda>_.
          if amountToMove > 0 then increment (fst paymentEntry) amountToMove
          else resolve ()))))"

definition revertBudgetAdjustmentForCreditSpending ::
  "ident \<Rightarrow> ident \<Rightarrow> ident \<Rightarrow> Decimal \<Rightarrow> int \<Rightarrow> int \<Rightarrow> unit io" where
  "revertBudgetAdjustmentForCreditSpending budgetId spendingCategoryId paymentCategoryId amount
       year month =
     (if isNegative amount \<or> isZero amount then resolve ()
      else if spendingCategoryId = paymentCategoryId then resolve ()
      else
        await (getOrCreateBudgetEntry budgetId spendingCategoryId year month) (\<lambda>spendingEntry.
        await (getOrCreateBudgetEntry budgetId paymentCategoryId year month) (\<lambda>paymentEntry.
        let amountToRevert = amount
        in
          await (increment (fst spendingEntry) amountToRevert) (\<lambda>_.
          decrement (fst paymentEntry) amountToRevert))))"

definition handleCreditCardPayment :: "ident \<Rightarrow> ident \<Rightarrow> Decimal \<Rightarrow> int \<Rightarrow> int \<Rightarrow> unit io" where
  "handleCreditCardPayment budgetId paymentCategoryId amount year month =
     (if isNegative amount \<or> isZero amount then resolve ()
      else
        await (getOrCreateBudgetEntry budgetId paymentCategoryId year month) (\<lambda>paymentEntry.
        decrement (fst paymentEntry) amount))"

definition revertCreditCardPayment :: "ident \<Rightarrow> ident \<Rightarrow> Decimal \<Rightarrow> int \<Rightarrow> int \<Rightarrow> unit io" where
  "revertCreditCardPayment budgetId paymentCategoryId amount year month =
     (if isNegative amount \<or> isZero amount then resolve ()
      else
        await (getOrCreateBudgetEntry budgetId paymentCategoryId year month) (\<lambda>paymentEntry.
        increment (fst paymentEntry) amount))"

definition handleCreditCardRefundToCategory ::
  "ident \<Rightarrow> ident \<Rightarrow> ident \<Rightarrow> Decimal \<Rightarrow> int \<Rightarrow> int \<Rightarrow> unit io" where
  "handleCreditCardRefundToCategory budgetId spendingCategoryId paymentCategoryId amount
       year month =
     (if isNegative amount \<or> isZero amount then resolve ()
      else if spendingCategoryId = paymentCategoryId then resolve ()
      else
        await (getOrCreateBudgetEntry budgetId spendingCategoryId year month) (\<lambda>spendingEntry.
        await (getOrCreateBudgetEntry budgetId paymentCategoryId year month) (\<lambda>paymentEntry.
        await (increment (fst spendingEntry) amount) (\<lambda>_.
        decrement (fst paymentEntry) amount))))"

definition revertCreditCardRefundToCategory ::
  "ident \<Rightarrow> ident \<Rightarrow> ident \<Rightarrow> Decimal \<Rightarrow> int \<Rightarrow> int \<Rightarrow> unit io" where
  "revertCreditCardRefundToCategory budgetId spendingCategoryId paymentCategoryId amount
       year month =
     (if isNegative amount \<or> isZero amount then resolve ()
      else if spendingCategoryId = paymentCategoryId then resolve ()
      else
        await (getOrCreateBudgetEntry budgetId spendingCategoryId year month) (\<lambda>spendingEntry.
        await (getOrCreateBudgetEntry budgetId paymentCategoryId year month) (\<lambda>paymentEntry.
        await (decrement (fst spendingEntry) amount) (\<lambda>_.
        increment (fst paymentEntry) amount))))"

definition handleCreditCardRefundToTBB ::
  "ident \<Rightarrow> ident \<Rightarrow> Decimal \<Rightarrow> int \<Rightarrow> int \<Rightarrow> unit io" where
  "handleCreditCardRefundToTBB budgetId paymentCategoryId amount year month =
     (if isNegative amount \<or> isZero amount then resolve ()
      else
        await (getOrCreateBudgetEntry budgetId paymentCategoryId year month) (\<lambda>paymentEntry.
        decrement (fst paymentEntry) amount))"

definition revertCreditCardRefundToTBB ::
  "ident \<Rightarrow> ident \<Rightarrow> Decimal \<Rightarrow> int \<Rightarrow> int \<Rightarrow> unit io" where
  "revertCreditCardRefundToTBB budgetId paymentCategoryId amount year month =
     (if isNegative amount \<or> isZero amount then resolve ()
      else
        await (getOrCreateBudgetEntry budgetId paymentCategoryId year month) (\<lambda>paymentEntry.
        increment (fst paymentEntry) amount))"

subsection \<open>getBudgetView\<close>

record BudgetViewCategoryData =
  bv_categoryId :: ident
  bv_categoryName :: string
  bv_categoryGroupId :: ident
  bv_assigned :: Decimal
  bv_activity :: Decimal
  bv_available :: Decimal
  bv_isOverspent :: bool

record BudgetViewResponse =
  bv_month :: int
  bv_year :: int
  toBeBudgeted :: Decimal
  totalIncome :: Decimal
  totalAssigned :: Decimal
  totalActivity :: Decimal
  totalAvailable :: Decimal
  categoriesData :: "BudgetViewCategoryData list"

text \<open>
  \<open>transaction.findMany\<close> with \<open>include: { splits: true }\<close>, its argument cast
  \<open>as any\<close>. The model \<open>Transaction\<close> of the schema has no relation \<open>splits\<close> (its relation
  to \<open>SplitTransaction\<close> is \<open>splitTransactions\<close>), which the cast hides from the compiler, so
  the Prisma client rejects the query with a validation error when it is called, whatever
  the budget, the month and the rows. A row of the result would carry its children.
\<close>

definition findManyIncludeSplits ::
  "ident \<Rightarrow> int \<Rightarrow> int \<Rightarrow> store \<Rightarrow> error + (Transaction \<times> SplitTransaction list) list" where
  "findManyIncludeSplits budgetId year month s =
     Inl (PrismaError ''Unknown field splits for include statement on model Transaction'')"

text \<open>The \<open>forEach\<close> over the month's transactions that adds up one category's activity.\<close>

definition categoryActivity ::
  "(Transaction \<times> SplitTransaction list) list \<Rightarrow> ident \<Rightarrow> Decimal" where
  "categoryActivity transactionsCurrentMonth categoryId =
     foldl (\<lambda>activity (t, splits).
        if tx_isSplit t
        then foldl (\<lambda>activity split.
               if split_categoryId split = categoryId then activity + split_amount split
               else activity)
             activity splits
        else if tx_categoryId t = Some categoryId then activity + tx_amount t
        else activity)
       0 transactionsCurrentMonth"

text \<open>
  The three queries run in \<open>Promise.all\<close>, which rejects when one of them does. The
  response is without the goal progress percentages (JavaScript floating point) and with
  the category rows in the order they are computed, not yet grouped and sorted by name.
\<close>

definition getBudgetView :: "ident \<Rightarrow> ident \<Rightarrow> int \<Rightarrow> int \<Rightarrow> store \<Rightarrow> error + BudgetViewResponse" where
  "getBudgetView userId budgetId year month s =
     (case getBudgetById userId budgetId s of
        Inl e \<Rightarrow> Inl e
      | Inr _ \<Rightarrow>
         (case findManyIncludeSplits budgetId year month s of
            Inl e \<Rightarrow> Inl e
          | Inr transactionsCurrentMonth \<Rightarrow>
          let fetchedCategoryGroups =
                map (\<lambda>g. (g, filter (\<lambda>c. cat_categoryGroupId c = cg_id g) (categories s)))
                  (filter (\<lambda>g. cg_budgetId g = budgetId) (categoryGroups s));
              incomeTransactions =
                filter (\<lambda>(t, splits). \<not> tx_isSplit t \<and> tx_categoryId t = None \<and> tx_amount t > 0)
                  transactionsCurrentMonth;
              totalIncome = foldl (\<lambda>sum (t, splits). sum + tx_amount t) 0 incomeTransactions;
              categoriesData =
                concat (map (\<lambda>(categoryGroup, cats).
                  map (\<lambda>category.
                    let assigned = (case budgetEntries s (cat_id category, year, month) of
                                      Some a \<Rightarrow> a | None \<Rightarrow> 0);
                        activity = categoryActivity transactionsCurrentMonth (cat_id category);
                        available = assigned + activity
                    in \<lparr> bv_categoryId = cat_id category,
                         bv_categoryName = cat_name category,
                         bv_categoryGroupId = cg_id categoryGroup,
                         bv_assigned = assigned,
                         bv_activity = activity,
                         bv_available = available,
                         bv_isOverspent = isNegative available \<rparr>) cats)
                  fetchedCategoryGroups);
              totalAssigned = foldl (\<lambda>total c. total + bv_assigned c) 0 categoriesData;
              totalActivity = foldl (\<lambda>total c. total + bv_activity c) 0 categoriesData;
              toBeBudgeted = totalIncome - totalAssigned;
              totalAvailable = foldl (\<lambda>sum c. sum + bv_available c) 0 categoriesData
          in Inr \<lparr> bv_month = month, bv_year = year,
                   toBeBudgeted = toBeBudgeted,
                   totalIncome = totalIncome,
                   totalAssigned = totalAssigned,
                   totalActivity = totalActivity,
                   totalAvailable = totalAvailable,
                   categoriesData = categoriesData \<rparr>))"

text \<open>The assigned amount of a category for a month; a category without an entry has 0.\<close>

definition assignedAmount :: "store \<Rightarrow> ident \<Rightarrow> int \<Rightarrow> int \<Rightarrow> Decimal" where
  "assignedAmount s categoryId year month =
     (case budgetEntries s (categoryId, year, month) of None \<Rightarrow> 0 | Some v \<Rightarrow> v)"

section \<open>AccountService (src/account/services/account.service.ts)\<close>

record CalculatedBalances =
  balance :: Decimal
  clearedBalance :: Decimal
  unclearedBalance :: Decimal

text \<open>
  \<open>transaction.aggregate({ _sum: { amount: true } })\<close>: the database's \<open>SUM\<close> over the
  matching rows, null when no row matches.
\<close>

definition aggregate_sum_amount :: "Transaction list \<Rightarrow> Decimal option" where
  "aggregate_sum_amount rows =
     (if rows = [] then None else Some (sqliteSum (map tx_amount rows)))"

definition calculateAccountBalances :: "ident \<Rightarrow> store \<Rightarrow> CalculatedBalances" where
  "calculateAccountBalances accountId s =
     (let result = aggregate_sum_amount
                     (filter (\<lambda>t. tx_accountId t = accountId) (transactions s));
          totalBalance = (case result of Some v \<Rightarrow> v | None \<Rightarrow> 0);
          clearedResult = aggregate_sum_amount
                     (filter (\<lambda>t. tx_accountId t = accountId
                                   \<and> tx_cleared t \<in> set [CLEARED, RECONCILED]) (transactions s));
          clearedBalance = (case clearedResult of Some v \<Rightarrow> v | None \<Rightarrow> 0);
          unclearedBalance = totalBalance - clearedBalance
      in \<lparr> balance = totalBalance, clearedBalance = clearedBalance,
           unclearedBalance = unclearedBalance \<rparr>)"

text \<open>
  \<open>getAccountById\<close>: the account row with its three stored balance fields replaced by the
  calculated ones.
\<close>

definition getAccountById :: "ident \<Rightarrow> ident \<Rightarrow> store \<Rightarrow> error + Account" where
  "getAccountById userId accountId s =
     (case findAccount s accountId of
        None \<Rightarrow> Inl (HttpException 404 ''Account not found'')
      | Some account \<Rightarrow>
          (case budgets s (acc_budgetId account) of
             None \<Rightarrow> Inl (PrismaError ''Inconsistent query result: budget is required'')
           | Some budget \<Rightarrow>
               if budget_userId budget \<noteq> userId
               then Inl (HttpException 403 ''Forbidden: Account does not belong to user'')
               else
                 let balances = calculateAccountBalances accountId s
                 in Inr (account\<lparr> acc_balance := balance balances,
                                   acc_clearedBalance := clearedBalance balances,
                                   acc_unclearedBalance := unclearedBalance balances \<rparr>)))"

section \<open>CategoryGroupService, CategoryService and GoalService\<close>

definition getCategoryGroupById :: "ident \<Rightarrow> ident \<Rightarrow> ident \<Rightarrow> CategoryGroup io" where
  "getCategoryGroupById userId budgetId groupId =
     await (getBudgetById userId budgetId) (\<lambda>_. (\<lambda>s.
       case find (\<lambda>g. cg_id g = groupId) (categoryGroups s) of
         None \<Rightarrow> Inl (HttpException 404 ''Category group not found in this budget'')
       | Some categoryGroup \<Rightarrow>
           if cg_budgetId categoryGroup \<noteq> budgetId
           then Inl (HttpException 404 ''Category group not found in this budget'')
           else Inr (categoryGroup, s)))"

definition getCategoryById :: "ident \<Rightarrow> ident \<Rightarrow> ident \<Rightarrow> ident \<Rightarrow> Category io" where
  "getCategoryById userId budgetId groupId categoryId =
     await (getCategoryGroupById userId budgetId groupId) (\<lambda>_. (\<lambda>s.
       case find (\<lambda>c. cat_id c = categoryId) (categories s) of
         None \<Rightarrow> Inl (HttpException 404 ''Category not found in this group'')
       | Some category \<Rightarrow>
           if cat_categoryGroupId category \<noteq> groupId
           then Inl (HttpException 404 ''Category not found in this group'')
           else Inr (category, s)))"

text \<open>
  A property of a request body that may be left out: \<open>undefined\<close>, \<open>null\<close> or a value.
  Where the code treats undefined and null alike the field is an \<open>option\<close>.
\<close>

datatype 'a field = Undefined | Null | Defined 'a

record UpsertGoalDto =
  ug_name :: "string field"
  ug_type :: GoalType
  ug_targetAmount :: "Decimal option"
  ug_targetDate :: "string option"
  ug_monthlyFundingAmount :: "Decimal option"

definition goalTypeName :: "GoalType \<Rightarrow> string" where
  "goalTypeName t = (case t of
       TARGET_BALANCE \<Rightarrow> ''TARGET_BALANCE''
     | TARGET_BALANCE_BY_DATE \<Rightarrow> ''TARGET_BALANCE_BY_DATE''
     | MONTHLY_FUNDING \<Rightarrow> ''MONTHLY_FUNDING'')"

text \<open>A string is truthy when it is present and not empty.\<close>

definition truthyString :: "string option \<Rightarrow> bool" where
  "truthyString x = (case x of None \<Rightarrow> False | Some str \<Rightarrow> str \<noteq> [])"

text \<open>\<open>validateGoalDto\<close> throws or overwrites fields of the request; the result is the request
  as it is after the call.\<close>

definition validateGoalDto :: "UpsertGoalDto \<Rightarrow> error + UpsertGoalDto" where
  "validateGoalDto dto =
     (case ug_type dto of
        TARGET_BALANCE \<Rightarrow>
          (case ug_targetAmount dto of
             None \<Rightarrow> Inl (HttpException 400
                 (''targetAmount is required and must be positive for goal type ''
                    @ goalTypeName (ug_type dto)))
           | Some a \<Rightarrow>
               if a \<le> 0
               then Inl (HttpException 400
                 (''targetAmount is required and must be positive for goal type ''
                    @ goalTypeName (ug_type dto)))
               else Inr (dto\<lparr> ug_targetDate := None, ug_monthlyFundingAmount := None \<rparr>))
      | TARGET_BALANCE_BY_DATE \<Rightarrow>
          (case ug_targetAmount dto of
             None \<Rightarrow> Inl (HttpException 400
                 (''targetAmount is required and must be positive for goal type ''
                    @ goalTypeName (ug_type dto)))
           | Some a \<Rightarrow>
               if a \<le> 0
               then Inl (HttpException 400
                 (''targetAmount is required and must be positive for goal type ''
                    @ goalTypeName (ug_type dto)))
               else if \<not> truthyString (ug_targetDate dto)
               then Inl (HttpException 400
                 (''targetDate is required for goal type '' @ goalTypeName (ug_type dto)))
               else Inr (dto\<lparr> ug_monthlyFundingAmount := None \<rparr>))
      | MONTHLY_FUNDING \<Rightarrow>
          (case ug_monthlyFundingAmount dto of
             None \<Rightarrow> Inl (HttpException 400
                 (''monthlyFundingAmount is required and must be positive for goal type ''
                    @ goalTypeName (ug_type dto)))
           | Some a \<Rightarrow>
               if a \<le> 0
               then Inl (HttpException 400
                 (''monthlyFundingAmount is required and must be positive for goal type ''
                    @ goalTypeName (ug_type dto)))
               else Inr (dto\<lparr> ug_targetAmount := None, ug_targetDate := None \<rparr>)))"

text \<open>
  \<open>goal.upsert\<close> on the unique \<open>categoryId\<close>. In the update an undefined \<open>name\<close> leaves the
  stored name as it is; the created row has a fresh id. The stored date is the
  \<open>Date\<close> made from the request's string; a string that \<open>new Date\<close> cannot read, for
  which the upsert throws, is not told apart from one it can read.
\<close>

definition upsertGoalForCategory ::
  "ident \<Rightarrow> ident \<Rightarrow> ident \<Rightarrow> ident \<Rightarrow> UpsertGoalDto \<Rightarrow> Goal io" where
  "upsertGoalForCategory userId budgetId groupId categoryId upsertDto =
     await (getCategoryById userId budgetId groupId categoryId) (\<lambda>_.
       case validateGoalDto upsertDto of
         Inl e \<Rightarrow> throw e
       | Inr dto \<Rightarrow>
           let targetDate = (if truthyString (ug_targetDate dto) then ug_targetDate dto else None)
           in (\<lambda>s.
             case goals s categoryId of
               None \<Rightarrow>
                 let goal = \<lparr> goal_id = nextId s,
                              goal_name = (case ug_name dto of Defined n \<Rightarrow> Some n | _ \<Rightarrow> None),
                              goal_type = ug_type dto,
                              goal_targetAmount = ug_targetAmount dto,
                              goal_targetDate = targetDate,
                              goal_monthlyFundingAmount = ug_monthlyFundingAmount dto,
                              goal_categoryId = categoryId \<rparr>
                 in Inr (goal, s\<lparr> goals := (goals s)(categoryId \<mapsto> goal),
                                  nextId := Suc (nextId s) \<rparr>)
             | Some existing \<Rightarrow>
                 let goal = existing\<lparr>
                              goal_name := (case ug_name dto of
                                              Undefined \<Rightarrow> goal_name existing
                                            | Null \<Rightarrow> None
                                            | Defined n \<Rightarrow> Some n),
                              goal_type := ug_type dto,
                              goal_targetAmount := ug_targetAmount dto,
                              goal_targetDate := targetDate,
                              goal_monthlyFundingAmount := ug_monthlyFundingAmount dto,
                              goal_categoryId := categoryId \<rparr>
                 in Inr (goal, s\<lparr> goals := (goals s)(categoryId \<mapsto> goal) \<rparr>)))"

text \<open>The claim's words: the request lacks the field its goal type requires.\<close>

definition missingRequiredField :: "UpsertGoalDto \<Rightarrow> bool" where
  "missingRequiredField dto =
     (case ug_type dto of
        TARGET_BALANCE \<Rightarrow> ug_targetAmount dto = None
      | TARGET_BALANCE_BY_DATE \<Rightarrow> ug_targetAmount dto = None \<or> ug_targetDate dto = None
      | MONTHLY_FUNDING \<Rightarrow> ug_monthlyFundingAmount dto = None)"

text \<open>The claim's words: the fields of the goal's shape are set and the others are null.\<close>

definition goalShapeOk :: "Goal \<Rightarrow> bool" where
  "goalShapeOk g =
     (case goal_type g of
        TARGET_BALANCE \<Rightarrow>
          goal_targetAmount g \<noteq> None \<and> goal_targetDate g = None
          \<and> goal_monthlyFundingAmount g = None
      | TARGET_BALANCE_BY_DATE \<Rightarrow>
          goal_targetAmount g \<noteq> None \<and> goal_targetDate g \<noteq> None
          \<and> goal_monthlyFundingAmount g = None
      | MONTHLY_FUNDING \<Rightarrow>
          goal_monthlyFundingAmount g \<noteq> None \<and> goal_targetAmount g = None
          \<and> goal_targetDate g = None)"

section \<open>PayeeService\<close>

text \<open>
  \<open>String.prototype.trim\<close>. A string is a list of 8-bit characters here, read as
  Latin-1: the white space among them is the ASCII white space and the no-break space.
\<close>

definition isWhiteSpace :: "char \<Rightarrow> bool" where
  "isWhiteSpace c =
     (c \<in> set [CHR '' '', CHR 0x09, CHR 0x0A, CHR 0x0B, CHR 0x0C, CHR 0x0D, CHR 0xA0])"

definition trim :: "string \<Rightarrow> string" where
  "trim str = rev (dropWhile isWhiteSpace (rev (dropWhile isWhiteSpace str)))"

definition findOrCreatePayeeByName :: "ident \<Rightarrow> string \<Rightarrow> Payee io" where
  "findOrCreatePayeeByName budgetId payeeName =
     (if trim payeeName = [] then throw (HttpException 400 ''Payee name cannot be empty'')
      else
        let normalizedName = trim payeeName
        in (\<lambda>s.
          case find (\<lambda>p. payee_budgetId p = budgetId \<and> payee_name p = normalizedName)
                 (payees s) of
            Some existingPayee \<Rightarrow> Inr (existingPayee, s)
          | None \<Rightarrow>
              let payee = \<lparr> payee_id = nextId s, payee_name = normalizedName,
                             payee_budgetId = budgetId \<rparr>
              in Inr (payee, s\<lparr> payees := payees s @ [payee], nextId := Suc (nextId s) \<rparr>)))"

section \<open>TransactionService (transaction.service.ts)\<close>

datatype CcBudgetType = NONE | SPENDING | REFUND_TO_CAT | REFUND_TO_TBB | PAYMENT

definition getCcBudgetType :: "Transaction \<Rightarrow> Account option \<Rightarrow> CcBudgetType" where
  "getCcBudgetType transaction account =
     (case account of
        None \<Rightarrow> NONE
      | Some account \<Rightarrow>
          if acc_type account \<noteq> CREDIT_CARD then NONE
          else
            (case acc_paymentCategoryId account of
               None \<Rightarrow> NONE
             | Some paymentCategoryId \<Rightarrow>
                 if \<not> tx_isTransfer transaction \<and> isNegative (tx_amount transaction)
                    \<and> tx_categoryId transaction \<noteq> None
                    \<and> tx_categoryId transaction \<noteq> Some paymentCategoryId
                 then SPENDING
                 else if \<not> tx_isTransfer transaction \<and> isPositive (tx_amount transaction)
                    \<and> tx_categoryId transaction \<noteq> None
                    \<and> tx_categoryId transaction \<noteq> Some paymentCategoryId
                 then REFUND_TO_CAT
                 else if \<not> tx_isTransfer transaction \<and> isPositive (tx_amount transaction)
                    \<and> (tx_categoryId transaction = None
                        \<or> tx_categoryId transaction = Some paymentCategoryId)
                 then REFUND_TO_TBB
                 else NONE))"

record SplitDto =
  sd_categoryId :: ident
  sd_amount :: Decimal
  sd_memo :: "string option"

text \<open>
  The request of \<open>createTransaction\<close>. An optional property is \<open>None\<close> when it is left
  out; \<open>ct_date\<close> is the \<open>Date\<close> parsed from the request's string.
\<close>

record CreateTransactionDto =
  ct_accountId :: ident
  ct_date :: "JsDate option"
  ct_amount :: Decimal
  ct_payeeName :: "string option"
  ct_payeeId :: "ident option"
  ct_categoryId :: "ident option"
  ct_cleared :: "ClearedStatus option"
  ct_approved :: "bool option"
  ct_memo :: "string option"
  ct_isTransfer :: "bool option"
  ct_transferAccountId :: "ident option"
  ct_isSplit :: "bool option"
  ct_splits :: "SplitDto list option"

definition truthyBool :: "bool option \<Rightarrow> bool" where
  "truthyBool x = (x = Some True)"

text \<open>The result of \<open>createTransaction\<close>: one row, or the array of the rows of a transfer.\<close>

datatype TransactionResponse = Single Transaction | Array "Transaction list"

text \<open>
  \<open>category.findUnique\<close> followed by the check that the category is in the budget.
\<close>

definition validateCategory :: "ident \<Rightarrow> ident \<Rightarrow> unit io" where
  "validateCategory budgetId categoryId = (\<lambda>s.
     if categoryBudgetId s categoryId \<noteq> Some budgetId then Inl categoryNotFound
     else Inr ((), s))"

text \<open>
  \<open>transaction.create\<close>: the database gives the row its id and checks its foreign keys.
\<close>

definition transaction_create :: "Transaction \<Rightarrow> Transaction io" where
  "transaction_create txData = (\<lambda>s.
     if findAccount s (tx_accountId txData) = None \<or> budgets s (tx_budgetId txData) = None
        \<or> (case tx_payeeId txData of
              Some p \<Rightarrow> find (\<lambda>x. payee_id x = p) (payees s) = None | None \<Rightarrow> False)
        \<or> (case tx_categoryId txData of
              Some c \<Rightarrow> find (\<lambda>x. cat_id x = c) (categories s) = None | None \<Rightarrow> False)
     then Inl (PrismaError ''Foreign key constraint failed'')
     else
       let created = txData\<lparr> tx_id := nextId s \<rparr>
       in Inr (created, s\<lparr> transactions := transactions s @ [created],
                           nextId := Suc (nextId s) \<rparr>))"

definition splitTransaction_create :: "SplitTransaction \<Rightarrow> SplitTransaction io" where
  "splitTransaction_create splitData = (\<lambda>s.
     let created = splitData\<lparr> split_id := nextId s \<rparr>
     in Inr (created, s\<lparr> splitTransactions := splitTransactions s @ [created],
                         nextId := Suc (nextId s) \<rparr>))"

text \<open>Step 1 of \<open>createTransaction\<close>: the source account, with its budget included.\<close>

definition findSourceAccount :: "ident \<Rightarrow> ident \<Rightarrow> Account io" where
  "findSourceAccount userId accountId = (\<lambda>s.
     case findAccount s accountId of
       None \<Rightarrow> Inl (HttpException 404 ''Source account not found'')
     | Some sourceAccount \<Rightarrow>
         (case budgets s (acc_budgetId sourceAccount) of
            None \<Rightarrow> Inl (PrismaError ''Inconsistent query result: budget is required'')
          | Some budget \<Rightarrow>
              if budget_userId budget \<noteq> userId
              then Inl (HttpException 403 ''Forbidden: Source account does not belong to user'')
              else Inr (sourceAccount, s)))"

text \<open>Step 2: the destination account of a transfer and the category rules.\<close>

definition enforceTransferCategoryRules ::
  "Account \<Rightarrow> Account \<Rightarrow> ident \<Rightarrow> ident option \<Rightarrow> unit io" where
  "enforceTransferCategoryRules sourceAccount destinationAccount budgetId categoryId =
     (let sourceOnBudget = acc_onBudget sourceAccount;
          destOnBudget = acc_onBudget destinationAccount
      in
        if sourceOnBudget \<and> destOnBudget then
          (if categoryId \<noteq> None
           then throw (HttpException 400
                  ''Category cannot be assigned to transfers between two budget accounts'')
           else resolve ())
        else if sourceOnBudget \<and> \<not> destOnBudget then
          (case categoryId of
             None \<Rightarrow> throw (HttpException 400
               ''Category is required for transfers from a budget account to a tracking account'')
           | Some c \<Rightarrow> validateCategory budgetId c)
        else if \<not> sourceOnBudget \<and> destOnBudget then
          (case categoryId of
             Some c \<Rightarrow> validateCategory budgetId c
           | None \<Rightarrow> resolve ())
        else resolve ())"

definition validateDestinationAccount ::
  "Account \<Rightarrow> ident \<Rightarrow> CreateTransactionDto \<Rightarrow> Account io" where
  "validateDestinationAccount sourceAccount budgetId createDto =
     (case ct_transferAccountId createDto of
        None \<Rightarrow> throw (HttpException 400 ''transferAccountId is required for transfers'')
      | Some transferAccountId \<Rightarrow>
          if transferAccountId = ct_accountId createDto
          then throw (HttpException 400
                 ''Transfer account cannot be the same as source account'')
          else (\<lambda>s.
            case findAccount s transferAccountId of
              None \<Rightarrow> Inl (HttpException 404
                ''Transfer destination account not found or not in the same budget'')
            | Some destinationAccount \<Rightarrow>
                if acc_budgetId destinationAccount \<noteq> budgetId
                then Inl (HttpException 404
                  ''Transfer destination account not found or not in the same budget'')
                else
                  (case enforceTransferCategoryRules sourceAccount destinationAccount budgetId
                          (ct_categoryId createDto) s of
                     Inl e \<Rightarrow> Inl e
                   | Inr (_, s') \<Rightarrow> Inr (destinationAccount, s'))))"

text \<open>Steps 3 and 5: the payee id, provided or found or created by name.\<close>

definition determinePayeeId :: "ident \<Rightarrow> ident option \<Rightarrow> string option \<Rightarrow> (ident option) io" where
  "determinePayeeId budgetId providedPayeeId payeeName =
     (case providedPayeeId of
        Some p \<Rightarrow> resolve (Some p)
      | None \<Rightarrow>
          (case payeeName of
             None \<Rightarrow> resolve None
           | Some n \<Rightarrow>
               if n = [] then resolve None
               else await (findOrCreatePayeeByName budgetId n)
                      (\<lambda>payee. resolve (Some (payee_id payee)))))"

text \<open>Steps 3 and 4, for a request that is not a transfer.\<close>

definition validateNonTransfer :: "ident \<Rightarrow> CreateTransactionDto \<Rightarrow> unit io" where
  "validateNonTransfer budgetId createDto =
     await (determinePayeeId budgetId (ct_payeeId createDto) (ct_payeeName createDto)) (\<lambda>_.
     await (case ct_categoryId createDto of
              Some c \<Rightarrow> if \<not> truthyBool (ct_isSplit createDto) then validateCategory budgetId c
                        else resolve ()
            | None \<Rightarrow> resolve ()) (\<lambda>_.
     if truthyBool (ct_isSplit createDto) \<and> ct_categoryId createDto \<noteq> None
     then throw (HttpException 400
       ''Cannot assign category directly to a split transaction header; assign categories within splits array.'')
     else resolve ()))"

text \<open>
  Step 5: the rows to create. The result is the primary row (the first one created) and
  all created rows.
\<close>

definition commonData :: "ident \<Rightarrow> JsDate \<Rightarrow> ident option \<Rightarrow> CreateTransactionDto \<Rightarrow> Transaction" where
  "commonData budgetId transactionDate transferGroupId createDto =
     \<lparr> tx_id = 0,
       tx_date = transactionDate,
       tx_amount = 0,
       tx_memo = ct_memo createDto,
       tx_cleared = (case ct_cleared createDto of Some c \<Rightarrow> c | None \<Rightarrow> UNCLEARED),
       tx_approved = (case ct_approved createDto of Some a \<Rightarrow> a | None \<Rightarrow> False),
       tx_isTransfer = (case ct_isTransfer createDto of Some b \<Rightarrow> b | None \<Rightarrow> False),
       tx_transferAccountId = None,
       tx_transferGroupId = transferGroupId,
       tx_isSplit = (case ct_isSplit createDto of Some b \<Rightarrow> b | None \<Rightarrow> False),
       tx_accountId = 0,
       tx_payeeId = None,
       tx_categoryId = None,
       tx_budgetId = budgetId \<rparr>"

definition createRows ::
  "Account \<Rightarrow> Account option \<Rightarrow> ident \<Rightarrow> JsDate \<Rightarrow> ident option \<Rightarrow> CreateTransactionDto
     \<Rightarrow> (Transaction \<times> Transaction list) io" where
  "createRows sourceAccount destinationAccount budgetId transactionDate transferGroupId createDto =
     (case (if truthyBool (ct_isTransfer createDto) then destinationAccount else None) of
        Some destinationAccount \<Rightarrow>
          await (transaction_create
            ((commonData budgetId transactionDate transferGroupId createDto)
               \<lparr> tx_accountId := acc_id sourceAccount,
                 tx_amount := - \<bar>ct_amount createDto\<bar>,
                 tx_payeeId := None,
                 tx_categoryId :=
                   (if acc_onBudget sourceAccount \<and> \<not> acc_onBudget destinationAccount
                    then ct_categoryId createDto else None),
                 tx_transferAccountId := Some (acc_id destinationAccount) \<rparr>)) (\<lambda>sourceTx.
          await (transaction_create
            ((commonData budgetId transactionDate transferGroupId createDto)
               \<lparr> tx_accountId := acc_id destinationAccount,
                 tx_amount := \<bar>ct_amount createDto\<bar>,
                 tx_payeeId := None,
                 tx_categoryId :=
                   (if \<not> acc_onBudget sourceAccount \<and> acc_onBudget destinationAccount
                    then ct_categoryId createDto else None),
                 tx_transferAccountId := Some (acc_id sourceAccount) \<rparr>)) (\<lambda>destinationTx.
          resolve (sourceTx, [sourceTx, destinationTx])))
      | None \<Rightarrow>
          await (determinePayeeId budgetId (ct_payeeId createDto) (ct_payeeName createDto))
            (\<lambda>payeeId.
          await (transaction_create
            ((commonData budgetId transactionDate transferGroupId createDto)
               \<lparr> tx_accountId := acc_id sourceAccount,
                 tx_amount := ct_amount createDto,
                 tx_payeeId := payeeId,
                 tx_categoryId :=
                   (if truthyBool (ct_isSplit createDto) then None
                    else ct_categoryId createDto) \<rparr>)) (\<lambda>created.
          resolve (created, [created]))))"

text \<open>Step 6: the loop over the splits, which returns their total.\<close>

fun createSplits :: "ident \<Rightarrow> ident \<Rightarrow> SplitDto list \<Rightarrow> Decimal \<Rightarrow> Decimal io" where
  "createSplits budgetId transactionId [] splitTotal = resolve splitTotal"
| "createSplits budgetId transactionId (split # rest) splitTotal =
     (\<lambda>s. if categoryBudgetId s (sd_categoryId split) \<noteq> Some budgetId
           then Inl (HttpException 404 ''Split Category not found in budget'')
           else
             await (splitTransaction_create
                      \<lparr> split_id = 0, split_amount = sd_amount split,
                        split_memo = sd_memo split, split_transactionId = transactionId,
                        split_categoryId = sd_categoryId split \<rparr>) (\<lambda>_.
             createSplits budgetId transactionId rest (splitTotal + sd_amount split)) s)"

definition createSplitTransactions ::
  "ident \<Rightarrow> Transaction \<Rightarrow> CreateTransactionDto \<Rightarrow> unit io" where
  "createSplitTransactions budgetId primaryTransaction createDto =
     (let isSplit = truthyBool (ct_isSplit createDto);
          isTransfer = truthyBool (ct_isTransfer createDto);
          splits = (case ct_splits createDto of Some l \<Rightarrow> l | None \<Rightarrow> [])
      in
        if isSplit \<and> \<not> isTransfer \<and> splits \<noteq> [] then
          await (createSplits budgetId (tx_id primaryTransaction) splits 0) (\<lambda>splitTotal.
          if splitTotal \<noteq> tx_amount primaryTransaction
          then throw (HttpException 400
                 ''Split amounts do not sum up to the total transaction amount'')
          else resolve ())
        else if isSplit \<and> \<not> isTransfer then
          throw (HttpException 400 ''Splits array is required for split transactions'')
        else resolve ())"

text \<open>Step 7: the budget adjustments for a transaction on a credit card.\<close>

definition handleCcAdjustments :: "ident \<Rightarrow> Transaction \<Rightarrow> int \<Rightarrow> int \<Rightarrow> unit io" where
  "handleCcAdjustments budgetId primaryTransaction year month = (\<lambda>s.
     (case findAccount s (tx_accountId primaryTransaction) of
        None \<Rightarrow> resolve ()
      | Some account \<Rightarrow>
          if acc_type account = CREDIT_CARD then
            (case acc_paymentCategoryId account of
               None \<Rightarrow> resolve ()
             | Some paymentCategoryId \<Rightarrow>
                 if \<not> tx_isTransfer primaryTransaction
                    \<and> isNegative (tx_amount primaryTransaction)
                    \<and> tx_categoryId primaryTransaction \<noteq> None
                 then
                   (case tx_categoryId primaryTransaction of
                      None \<Rightarrow> resolve ()
                    | Some categoryId \<Rightarrow>
                        if categoryId \<noteq> paymentCategoryId
                        then adjustBudgetsForCreditSpending budgetId categoryId
                               paymentCategoryId \<bar>tx_amount primaryTransaction\<bar> year month
                        else resolve ())
                 else if \<not> tx_isTransfer primaryTransaction
                    \<and> isPositive (tx_amount primaryTransaction)
                 then
                   (let refundAmount = tx_amount primaryTransaction
                    in case tx_categoryId primaryTransaction of
                      Some categoryId \<Rightarrow>
                        if categoryId \<noteq> paymentCategoryId
                        then handleCreditCardRefundToCategory budgetId categoryId
                               paymentCategoryId refundAmount year month
                        else handleCreditCardRefundToTBB budgetId paymentCategoryId
                               refundAmount year month
                    | None \<Rightarrow>
                        handleCreditCardRefundToTBB budgetId paymentCategoryId
                          refundAmount year month)
                 else resolve ())
          else resolve ()) s)"

text \<open>The payment of a card: a transfer from a budget account to a credit card.\<close>

definition handleTransferToCreditCard ::
  "ident \<Rightarrow> Account \<Rightarrow> Account option \<Rightarrow> Transaction \<Rightarrow> Transaction list \<Rightarrow> Decimal
     \<Rightarrow> int \<Rightarrow> int \<Rightarrow> unit io" where
  "handleTransferToCreditCard budgetId sourceAccount destinationAccount primaryTransaction
       createdTransactions amount year month =
     (case destinationAccount of
        None \<Rightarrow> resolve ()
      | Some destinationAccount \<Rightarrow>
          if tx_isTransfer primaryTransaction \<and> length createdTransactions = 2 then
            (if acc_onBudget sourceAccount \<and> acc_type destinationAccount = CREDIT_CARD then
               (\<lambda>s. (case findAccount s (acc_id destinationAccount) of
                        None \<Rightarrow> resolve ()
                      | Some ccAccount \<Rightarrow>
                          (case acc_paymentCategoryId ccAccount of
                             None \<Rightarrow> resolve ()
                           | Some paymentCategoryId \<Rightarrow>
                               handleCreditCardPayment budgetId paymentCategoryId
                                 \<bar>amount\<bar> year month)) s)
             else resolve ())
          else resolve ())"

text \<open>
  \<open>createTransaction\<close>. \<open>now\<close> is the clock, read when the request has no date. The
  transfer group id is made before the database transaction starts.
\<close>

definition createTransaction ::
  "JsDate \<Rightarrow> ident \<Rightarrow> CreateTransactionDto \<Rightarrow> store \<Rightarrow> (error + TransactionResponse) \<times> store" where
  "createTransaction now userId createDto s0 =
     (let transactionDate = (case ct_date createDto of Some d \<Rightarrow> d | None \<Rightarrow> now);
          isTransfer = truthyBool (ct_isTransfer createDto);
          transferGroupId = (if isTransfer then Some (nextId s0) else None);
          s1 = (if isTransfer then s0\<lparr> nextId := Suc (nextId s0) \<rparr> else s0)
      in dollar_transaction
        (await (findSourceAccount userId (ct_accountId createDto)) (\<lambda>sourceAccount.
         let budgetId = acc_budgetId sourceAccount;
             year = getFullYear transactionDate;
             month = getMonth transactionDate + 1
         in
         await (if isTransfer
                then await (validateDestinationAccount sourceAccount budgetId createDto)
                       (\<lambda>d. resolve (Some d))
                else await (validateNonTransfer budgetId createDto) (\<lambda>_. resolve None))
           (\<lambda>destinationAccount.
         await (createRows sourceAccount destinationAccount budgetId transactionDate
                  transferGroupId createDto) (\<lambda>(primaryTransaction, createdTransactions).
         await (createSplitTransactions budgetId primaryTransaction createDto) (\<lambda>_.
         await (handleCcAdjustments budgetId primaryTransaction year month) (\<lambda>_.
         await (handleTransferToCreditCard budgetId sourceAccount destinationAccount
                  primaryTransaction createdTransactions (ct_amount createDto) year month) (\<lambda>_.
         resolve (if isTransfer then Array createdTransactions
                  else Single primaryTransaction)))))))) s1)"

subsection \<open>deleteTransaction\<close>

text \<open>The existing row with its budget included, for the given user.\<close>

definition findExistingTransaction :: "ident \<Rightarrow> ident \<Rightarrow> Transaction io" where
  "findExistingTransaction userId transactionId = (\<lambda>s.
     case find (\<lambda>t. tx_id t = transactionId) (transactions s) of
       None \<Rightarrow> Inl (HttpException 404 ''Transaction not found'')
     | Some existingTransaction \<Rightarrow>
         (case budgets s (tx_budgetId existingTransaction) of
            None \<Rightarrow> Inl (PrismaError ''Inconsistent query result: budget is required'')
          | Some budget \<Rightarrow>
              if budget_userId budget \<noteq> userId
              then Inl (HttpException 403 ''Forbidden: Transaction does not belong to user'')
              else Inr (existingTransaction, s)))"

definition findPairedTransactionId :: "Transaction \<Rightarrow> store \<Rightarrow> ident option" where
  "findPairedTransactionId existingTransaction s =
     (if tx_isTransfer existingTransaction \<and> tx_transferGroupId existingTransaction \<noteq> None
      then
        (case find (\<lambda>t. tx_transferGroupId t = tx_transferGroupId existingTransaction
                        \<and> tx_id t \<noteq> tx_id existingTransaction) (transactions s) of
           Some paired \<Rightarrow> Some (tx_id paired)
         | None \<Rightarrow> None)
      else None)"

definition revertBudgetAdjustments ::
  "Transaction \<Rightarrow> Account option \<Rightarrow> Account option \<Rightarrow> int \<Rightarrow> int \<Rightarrow> unit io" where
  "revertBudgetAdjustments existingTransaction account1 account2 year month =
     (if \<not> tx_isTransfer existingTransaction
         \<and> (case account1 of Some a \<Rightarrow> acc_type a = CREDIT_CARD | None \<Rightarrow> False)
         \<and> isNegative (tx_amount existingTransaction)
         \<and> tx_categoryId existingTransaction \<noteq> None
      then
        (case (account1, tx_categoryId existingTransaction) of
           (Some a, Some categoryId) \<Rightarrow>
             (case acc_paymentCategoryId a of
                Some paymentCategoryId \<Rightarrow>
                  if categoryId \<noteq> paymentCategoryId
                  then revertBudgetAdjustmentForCreditSpending
                         (tx_budgetId existingTransaction) categoryId paymentCategoryId
                         \<bar>tx_amount existingTransaction\<bar> year month
                  else resolve ()
              | None \<Rightarrow> resolve ())
         | _ \<Rightarrow> resolve ())
      else if \<not> tx_isTransfer existingTransaction
         \<and> (case account1 of Some a \<Rightarrow> acc_type a = CREDIT_CARD | None \<Rightarrow> False)
         \<and> isPositive (tx_amount existingTransaction)
      then
        (case account1 of
           Some a \<Rightarrow>
             (case acc_paymentCategoryId a of
                Some paymentCategoryId \<Rightarrow>
                  (let refundAmount = tx_amount existingTransaction
                   in case tx_categoryId existingTransaction of
                     Some categoryId \<Rightarrow>
                       if categoryId \<noteq> paymentCategoryId
                       then revertCreditCardRefundToCategory
                              (tx_budgetId existingTransaction) categoryId paymentCategoryId
                              refundAmount year month
                       else revertCreditCardRefundToTBB
                              (tx_budgetId existingTransaction) paymentCategoryId
                              refundAmount year month
                   | None \<Rightarrow>
                       revertCreditCardRefundToTBB
                         (tx_budgetId existingTransaction) paymentCategoryId
                         refundAmount year month)
              | None \<Rightarrow> resolve ())
         | None \<Rightarrow> resolve ())
      else if tx_isTransfer existingTransaction then
        (case (account1, account2) of
           (Some a1, Some a2) \<Rightarrow>
             (let paymentAmount = \<bar>tx_amount existingTransaction\<bar>;
                  paymentCategoryId =
                    (if acc_type a1 = CREDIT_CARD \<and> acc_onBudget a2
                     then acc_paymentCategoryId a1
                     else if acc_onBudget a1 \<and> acc_type a2 = CREDIT_CARD
                     then acc_paymentCategoryId a2
                     else None)
              in case paymentCategoryId of
                   Some pc \<Rightarrow> revertCreditCardPayment (tx_budgetId existingTransaction) pc
                                paymentAmount year month
                 | None \<Rightarrow> resolve ())
         | _ \<Rightarrow> resolve ())
      else resolve ())"

definition deleteMany :: "ident list \<Rightarrow> unit io" where
  "deleteMany idsToDelete = (\<lambda>s.
     Inr ((), s\<lparr> splitTransactions :=
                   filter (\<lambda>sp. split_transactionId sp \<notin> set idsToDelete)
                     (splitTransactions s),
                 transactions :=
                   filter (\<lambda>t. tx_id t \<notin> set idsToDelete) (transactions s) \<rparr>))"

definition deleteTransaction :: "ident \<Rightarrow> ident \<Rightarrow> store \<Rightarrow> (error + unit) \<times> store" where
  "deleteTransaction userId transactionId =
     dollar_transaction
       (await (findExistingTransaction userId transactionId) (\<lambda>existingTransaction. (\<lambda>s.
          let pairedTransactionId = findPairedTransactionId existingTransaction s;
              idsToDelete = transactionId #
                 (case pairedTransactionId of Some p \<Rightarrow> [p] | None \<Rightarrow> []);
              year = getFullYear (tx_date existingTransaction);
              month = getMonth (tx_date existingTransaction) + 1;
              account1 = findAccount s (tx_accountId existingTransaction)
          in
            (case (case pairedTransactionId of
                     None \<Rightarrow> Inr None
                   | Some _ \<Rightarrow>
                       (case tx_transferAccountId existingTransaction of
                          None \<Rightarrow> Inl (PrismaError ''Argument id must not be null'')
                        | Some a \<Rightarrow> Inr (findAccount s a))) of
               Inl e \<Rightarrow> Inl e
             | Inr account2 \<Rightarrow>
                 await (revertBudgetAdjustments existingTransaction account1 account2
                          year month) (\<lambda>_.
                 deleteMany idsToDelete) s))))"

subsection \<open>updateTransaction\<close>

record UpdateTransactionDto =
  ut_accountId :: "ident option"
  ut_date :: "JsDate option"
  ut_amount :: "Decimal option"
  ut_payeeName :: "string field"
  ut_payeeId :: "ident field"
  ut_categoryId :: "ident field"
  ut_cleared :: "ClearedStatus option"
  ut_approved :: "bool option"
  ut_memo :: "string option"

text \<open>
  What \<open>dataToUpdate\<close> does to one relation of the row: leave it, connect it to a row,
  or disconnect it.
\<close>

datatype relationUpdate = Keep | Connect "ident option" | Disconnect

text \<open>The payee change: \<open>connect\<close> with the id provided, found or created, or with null.\<close>

definition payeeUpdate :: "ident \<Rightarrow> UpdateTransactionDto \<Rightarrow> relationUpdate io" where
  "payeeUpdate budgetId updateDto =
     (if ut_payeeId updateDto \<noteq> Undefined \<or> ut_payeeName updateDto \<noteq> Undefined
      then
        (case ut_payeeId updateDto of
           Defined p \<Rightarrow> resolve (Connect (Some p))
         | _ \<Rightarrow>
             (case ut_payeeName updateDto of
                Defined n \<Rightarrow>
                  if n = [] then resolve (Connect None)
                  else await (findOrCreatePayeeByName budgetId n)
                         (\<lambda>payee. resolve (Connect (Some (payee_id payee))))
              | _ \<Rightarrow> resolve (Connect None)))
      else resolve Keep)"

definition categoryUpdate :: "ident \<Rightarrow> Transaction \<Rightarrow> UpdateTransactionDto \<Rightarrow> relationUpdate io" where
  "categoryUpdate budgetId existingTransaction updateDto =
     (if \<not> tx_isSplit existingTransaction \<and> ut_categoryId updateDto \<noteq> Undefined
      then
        (case ut_categoryId updateDto of
           Defined c \<Rightarrow> await (validateCategory budgetId c) (\<lambda>_. resolve (Connect (Some c)))
         | _ \<Rightarrow> resolve Disconnect)
      else resolve Keep)"

text \<open>The account change: the id and the row of the account after the update.\<close>

definition accountUpdate ::
  "ident \<Rightarrow> Transaction \<Rightarrow> Account \<Rightarrow> UpdateTransactionDto \<Rightarrow> (ident \<times> Account) io" where
  "accountUpdate budgetId existingTransaction existingAccount updateDto =
     (case ut_accountId updateDto of
        None \<Rightarrow> resolve (tx_accountId existingTransaction, existingAccount)
      | Some accountId \<Rightarrow>
          if accountId \<noteq> tx_accountId existingTransaction then (\<lambda>s.
            case findAccount s accountId of
              None \<Rightarrow> Inl (HttpException 403
                ''Forbidden: New account invalid or does not belong to user budget'')
            | Some potentiallyNewAccount \<Rightarrow>
                if acc_budgetId potentiallyNewAccount \<noteq> budgetId
                then Inl (HttpException 403
                  ''Forbidden: New account invalid or does not belong to user budget'')
                else Inr ((acc_id potentiallyNewAccount, potentiallyNewAccount), s))
          else resolve (tx_accountId existingTransaction, existingAccount))"

text \<open>
  \<open>transaction.update\<close>: Prisma rejects a \<open>connect\<close> to null or to a row that does not
  exist, then writes the row with the given id and returns it.
\<close>

definition transaction_update ::
  "Transaction \<Rightarrow> UpdateTransactionDto \<Rightarrow> relationUpdate \<Rightarrow> relationUpdate \<Rightarrow> ident
     \<Rightarrow> Transaction io" where
  "transaction_update existingTransaction updateDto payee category newAccountId = (\<lambda>s.
     if (case payee of
           Connect None \<Rightarrow> True
         | Connect (Some p) \<Rightarrow> find (\<lambda>x. payee_id x = p) (payees s) = None
         | _ \<Rightarrow> False)
     then Inl (PrismaError ''An operation failed because it depends on a record that was not found'')
     else
       let updatedTransaction = existingTransaction\<lparr>
             tx_date := (case ut_date updateDto of Some d \<Rightarrow> d
                         | None \<Rightarrow> tx_date existingTransaction),
             tx_amount := (case ut_amount updateDto of Some a \<Rightarrow> a
                           | None \<Rightarrow> tx_amount existingTransaction),
             tx_memo := (case ut_memo updateDto of Some m \<Rightarrow> Some m
                         | None \<Rightarrow> tx_memo existingTransaction),
             tx_cleared := (case ut_cleared updateDto of Some c \<Rightarrow> c
                            | None \<Rightarrow> tx_cleared existingTransaction),
             tx_approved := (case ut_approved updateDto of Some a \<Rightarrow> a
                             | None \<Rightarrow> tx_approved existingTransaction),
             tx_payeeId := (case payee of Connect p \<Rightarrow> p | Disconnect \<Rightarrow> None
                            | Keep \<Rightarrow> tx_payeeId existingTransaction),
             tx_categoryId := (case category of Connect c \<Rightarrow> c | Disconnect \<Rightarrow> None
                               | Keep \<Rightarrow> tx_categoryId existingTransaction),
             tx_accountId := newAccountId \<rparr>
       in Inr (updatedTransaction,
               s\<lparr> transactions :=
                    map (\<lambda>t. if tx_id t = tx_id existingTransaction then updatedTransaction
                              else t) (transactions s) \<rparr>))"

definition revertOldAdjustment ::
  "CcBudgetType \<Rightarrow> ident \<Rightarrow> Transaction \<Rightarrow> Account \<Rightarrow> unit io" where
  "revertOldAdjustment oldCcBudgetType budgetId existingTransaction existingAccount =
     (if oldCcBudgetType \<noteq> NONE then
        (case acc_paymentCategoryId existingAccount of
           None \<Rightarrow> resolve ()
         | Some oldPaymentCategoryId \<Rightarrow>
             (let oldAmount = \<bar>tx_amount existingTransaction\<bar>;
                  existingYear = getFullYear (tx_date existingTransaction);
                  existingMonth = getMonth (tx_date existingTransaction) + 1
              in case (oldCcBudgetType, tx_categoryId existingTransaction) of
                   (SPENDING, Some categoryId) \<Rightarrow>
                     revertBudgetAdjustmentForCreditSpending budgetId categoryId
                       oldPaymentCategoryId oldAmount existingYear existingMonth
                 | (REFUND_TO_CAT, Some categoryId) \<Rightarrow>
                     revertCreditCardRefundToCategory budgetId categoryId
                       oldPaymentCategoryId oldAmount existingYear existingMonth
                 | (REFUND_TO_TBB, _) \<Rightarrow>
                     revertCreditCardRefundToTBB budgetId oldPaymentCategoryId oldAmount
                       existingYear existingMonth
                 | _ \<Rightarrow> resolve ()))
      else resolve ())"

definition applyNewAdjustment ::
  "CcBudgetType \<Rightarrow> ident \<Rightarrow> Transaction \<Rightarrow> Account \<Rightarrow> unit io" where
  "applyNewAdjustment newCcBudgetType budgetId updatedTransaction finalAccount =
     (if newCcBudgetType \<noteq> NONE then
        (case acc_paymentCategoryId finalAccount of
           None \<Rightarrow> resolve ()
         | Some newPaymentCategoryId \<Rightarrow>
             (let newAmount = \<bar>tx_amount updatedTransaction\<bar>;
                  finalYear = getFullYear (tx_date updatedTransaction);
                  finalMonth = getMonth (tx_date updatedTransaction) + 1
              in case (newCcBudgetType, tx_categoryId updatedTransaction) of
                   (SPENDING, Some categoryId) \<Rightarrow>
                     adjustBudgetsForCreditSpending budgetId categoryId
                       newPaymentCategoryId newAmount finalYear finalMonth
                 | (REFUND_TO_CAT, Some categoryId) \<Rightarrow>
                     handleCreditCardRefundToCategory budgetId categoryId
                       newPaymentCategoryId newAmount finalYear finalMonth
                 | (REFUND_TO_TBB, _) \<Rightarrow>
                     handleCreditCardRefundToTBB budgetId newPaymentCategoryId newAmount
                       finalYear finalMonth
                 | _ \<Rightarrow> resolve ()))
      else resolve ())"

definition findTransactionWithAccount :: "ident \<Rightarrow> ident \<Rightarrow> (Transaction \<times> Account) io" where
  "findTransactionWithAccount userId transactionId = (\<lambda>s.
     case find (\<lambda>t. tx_id t = transactionId) (transactions s) of
       None \<Rightarrow> Inl (HttpException 404 ''Transaction or associated account not found'')
     | Some existingTransaction \<Rightarrow>
         (case findAccount s (tx_accountId existingTransaction) of
            None \<Rightarrow> Inl (HttpException 404 ''Transaction or associated account not found'')
          | Some existingAccount \<Rightarrow>
              (case budgets s (tx_budgetId existingTransaction) of
                 None \<Rightarrow> Inl (PrismaError ''Inconsistent query result: budget is required'')
               | Some budget \<Rightarrow>
                   if budget_userId budget \<noteq> userId
                   then Inl (HttpException 403 ''Forbidden'')
                   else Inr ((existingTransaction, existingAccount), s))))"

definition updateTransaction ::
  "ident \<Rightarrow> ident \<Rightarrow> UpdateTransactionDto \<Rightarrow> store \<Rightarrow> (error + Transaction) \<times> store" where
  "updateTransaction userId transactionId updateDto =
     dollar_transaction
       (await (findTransactionWithAccount userId transactionId)
          (\<lambda>(existingTransaction, existingAccount).
        let budgetId = tx_budgetId existingTransaction;
            oldCcBudgetType = getCcBudgetType existingTransaction (Some existingAccount)
        in
        await (payeeUpdate budgetId updateDto) (\<lambda>payee.
        await (categoryUpdate budgetId existingTransaction updateDto) (\<lambda>category.
        await (accountUpdate budgetId existingTransaction existingAccount updateDto)
          (\<lambda>(newAccountId, finalAccount).
        if ut_amount updateDto \<noteq> None \<and> tx_isSplit existingTransaction
        then throw (HttpException 400
          ''Cannot change total amount of a split transaction via this endpoint. Update splits directly.'')
        else
          await (transaction_update existingTransaction updateDto payee category newAccountId)
            (\<lambda>updatedTransaction.
          let newCcBudgetType = getCcBudgetType updatedTransaction (Some finalAccount)
          in
          await (revertOldAdjustment oldCcBudgetType budgetId existingTransaction
                   existingAccount) (\<lambda>_.
          await (applyNewAdjustment newCcBudgetType budgetId updatedTransaction
                   finalAccount) (\<lambda>_.
          resolve updatedTransaction))))))))"

section \<open>Example ledger\<close>

text \<open>
  One budget (3) of user 7 with a checking account (20), a credit card (21) linked to the
  payment category 11, and two tracking accounts (22, 23).
\<close>

definition exampleStore :: store where
  "exampleStore =
     \<lparr> budgets = [3 \<mapsto> \<lparr> budget_userId = 7 \<rparr>],
       accounts = [
         \<lparr> acc_id = 20, acc_type = CHECKING, acc_onBudget = True, acc_balance = 0,
                 acc_clearedBalance = 0, acc_unclearedBalance = 0, acc_budgetId = 3,
                 acc_paymentCategoryId = None \<rparr>,
         \<lparr> acc_id = 21, acc_type = CREDIT_CARD, acc_onBudget = True, acc_balance = 0,
                 acc_clearedBalance = 0, acc_unclearedBalance = 0, acc_budgetId = 3,
                 acc_paymentCategoryId = Some 11 \<rparr>,
         \<lparr> acc_id = 22, acc_type = INVESTMENT, acc_onBudget = False, acc_balance = 0,
                 acc_clearedBalance = 0, acc_unclearedBalance = 0, acc_budgetId = 3,
                 acc_paymentCategoryId = None \<rparr>,
         \<lparr> acc_id = 23, acc_type = MORTGAGE, acc_onBudget = False, acc_balance = 0,
                 acc_clearedBalance = 0, acc_unclearedBalance = 0, acc_budgetId = 3,
                 acc_paymentCategoryId = None \<rparr>],
       categoryGroups = [
         \<lparr> cg_id = 5, cg_name = ''Everyday Expenses'', cg_budgetId = 3 \<rparr>,
         \<lparr> cg_id = 6, cg_name = ''Credit Card Payments'', cg_budgetId = 3 \<rparr>],
       categories = [
         \<lparr> cat_id = 10, cat_name = ''Groceries'', cat_categoryGroupId = 5 \<rparr>,
         \<lparr> cat_id = 12, cat_name = ''Rent'', cat_categoryGroupId = 5 \<rparr>,
         \<lparr> cat_id = 11, cat_name = ''Visa Payments'', cat_categoryGroupId = 6 \<rparr>],
       budgetEntries = [(10, 2024, 4) \<mapsto> 200, (12, 2024, 4) \<mapsto> 30],
       payees = [],
       transactions = [],
       splitTransactions = [],
       goals = Map.empty,
       nextId = 100 \<rparr>"

definition exampleTransaction :: "ident \<Rightarrow> ident \<Rightarrow> Decimal \<Rightarrow> ClearedStatus \<Rightarrow> Transaction" where
  "exampleTransaction i a amt c =
     \<lparr> tx_id = i, tx_date = \<lparr> getFullYear = 2024, getMonth = 3, withinMonth = 0 \<rparr>,
       tx_amount = amt, tx_memo = None, tx_cleared = c, tx_approved = True,
       tx_isTransfer = False, tx_transferAccountId = None, tx_transferGroupId = None,
       tx_isSplit = False, tx_accountId = a, tx_payeeId = None, tx_categoryId = None,
       tx_budgetId = 3 \<rparr>"

text \<open>
  The example ledger with 0.3 assigned to Groceries (10) for April 2024 and no other entry.
\<close>

definition centsStore :: store where
  "centsStore = exampleStore\<lparr> budgetEntries := [(10, 2024, 4) \<mapsto> 3 / 10] \<rparr>"

text \<open>
  A ledger for the budget view of April 2024: an income of 1000, an outflow of 60 from
  Groceries, a split inflow of 100 with two children, a transfer and an inflow in May.
\<close>

definition viewStore :: store where
  "viewStore = exampleStore\<lparr>
     transactions :=
       [exampleTransaction 50 20 1000 CLEARED,
        (exampleTransaction 51 20 (- 60) CLEARED)\<lparr> tx_categoryId := Some 10 \<rparr>,
        (exampleTransaction 60 20 100 CLEARED)\<lparr> tx_isSplit := True \<rparr>,
        (exampleTransaction 61 20 500 CLEARED)\<lparr> tx_isTransfer := True \<rparr>,
        (exampleTransaction 62 20 70 CLEARED)\<lparr>
           tx_date := \<lparr> getFullYear = 2024, getMonth = 4, withinMonth = 0 \<rparr> \<rparr>],
     splitTransactions :=
       [\<lparr> split_id = 70, split_amount = 40, split_memo = None, split_transactionId = 60,
          split_categoryId = 10 \<rparr>,
        \<lparr> split_id = 71, split_amount = 60, split_memo = None, split_transactionId = 60,
          split_categoryId = 12 \<rparr>] \<rparr>"


text \<open>
  The two rows that \<open>createRows\<close> persists for a transfer when the group id is \<open>n\<close>: the
  source row with id \<open>n + 1\<close> and the destination row with id \<open>n + 2\<close>.
\<close>

definition transferRows :: "JsDate \<Rightarrow> CreateTransactionDto \<Rightarrow> Account \<Rightarrow> Account \<Rightarrow> nat \<Rightarrow> Transaction list" where
  "transferRows now d src da n =
    (let date = (case ct_date d of Some x \<Rightarrow> x | None \<Rightarrow> now);
         common = commonData (acc_budgetId src) date (Some n) d
     in [common\<lparr> tx_accountId := acc_id src, tx_amount := - \<bar>ct_amount d\<bar>, tx_payeeId := None,
                 tx_categoryId := (if acc_onBudget src \<and> \<not> acc_onBudget da
                                   then ct_categoryId d else None),
                 tx_transferAccountId := Some (acc_id da), tx_id := Suc n \<rparr>,
         common\<lparr> tx_accountId := acc_id da, tx_amount := \<bar>ct_amount d\<bar>, tx_payeeId := None,
                 tx_categoryId := (if \<not> acc_onBudget src \<and> acc_onBudget da
                                   then ct_categoryId d else None),
                 tx_transferAccountId := Some (acc_id src), tx_id := Suc (Suc n) \<rparr>])"

text \<open>Example requests, dated in April 2024.\<close>

definition april2024 :: JsDate where
  "april2024 = \<lparr> getFullYear = 2024, getMonth = 3, withinMonth = 0 \<rparr>"

definition exampleCreateDto :: CreateTransactionDto where
  "exampleCreateDto =
     \<lparr> ct_accountId = 20, ct_date = Some april2024, ct_amount = - 50, ct_payeeName = None,
       ct_payeeId = None, ct_categoryId = None, ct_cleared = None, ct_approved = None,
       ct_memo = None, ct_isTransfer = None, ct_transferAccountId = None, ct_isSplit = None,
       ct_splits = None \<rparr>"

text \<open>
  Integrity of the stored ids: every transaction id, transfer group id and split parent id
  was handed out by the counter.
\<close>

definition freshIds :: "store \<Rightarrow> bool" where
  "freshIds s =
     (list_all (\<lambda>t. tx_id t < nextId s
                   \<and> (case tx_transferGroupId t of None \<Rightarrow> True | Some g \<Rightarrow> g < nextId s))
        (transactions s)
      \<and> list_all (\<lambda>sp. split_transactionId sp < nextId s) (splitTransactions s))"

text \<open>
  Integrity of the payment-category links: the payment category of an account is a
  category of the account's budget, as \<open>createAccount\<close> makes it.
\<close>

definition paymentCategoriesInBudget :: "store \<Rightarrow> bool" where
  "paymentCategoriesInBudget s =
     list_all (\<lambda>a. case acc_paymentCategoryId a of
                      None \<Rightarrow> True
                    | Some pc \<Rightarrow> categoryBudgetId s pc = Some (acc_budgetId a))
       (accounts s)"

text \<open>A step that, when it returns, has changed nothing but budget entries.\<close>

definition entriesOnly :: "'a io \<Rightarrow> bool" where
  "entriesOnly m = (\<forall>s x s'. m s = Inr (x, s') \<longrightarrow> (\<exists>e. s' = s\<lparr>budgetEntries := e\<rparr>))"


text \<open>The claim's words: a credit-card account with a linked payment category.\<close>

definition isLinkedCreditCard :: "Account option \<Rightarrow> bool" where
  "isLinkedCreditCard account =
     (case account of
        None \<Rightarrow> False
      | Some a \<Rightarrow> acc_type a = CREDIT_CARD \<and> acc_paymentCategoryId a \<noteq> None)"

text \<open>An update request that changes nothing; the examples set some of its fields.\<close>

definition exampleUpdateDto :: UpdateTransactionDto where
  "exampleUpdateDto =
     \<lparr> ut_accountId = None, ut_date = None, ut_amount = None, ut_payeeName = Undefined,
       ut_payeeId = Undefined, ut_categoryId = Undefined, ut_cleared = None,
       ut_approved = None, ut_memo = None \<rparr>"

section \<open>Evaluation of the SQLite arithmetic\<close>

lemma floor_rat_numeral:
  "\<lfloor>numeral a / numeral b :: rat\<rfloor> = numeral a div numeral b"
  using floor_divide_of_int_eq [of "numeral a" "numeral b", where ?'a = rat] by simp

lemmas binary64_simps =
  binary64_def scaleDown.simps scaleUp.simps roundHalfEven_def radixPower_def Let_def
  floor_rat_numeral

lemmas sqlite_simps =
  sqliteAdd_def sqliteSub_def sqliteSum_def shortestDecimal_def decimalDigits_def binary64_simps

text \<open>
  Sums and differences of amounts in cents that are not the decimal sum and difference:
  0.3 - 0.1 is 0.19999999999999998, (0.3 - 0.03) + 0.03 is 0.30000000000000004 and
  0.1 + 0.2 is 0.30000000000000004.
\<close>

lemma sqliteSub_example:
  "sqliteSub (3 / 10) (1 / 10) = 19999999999999998 / 10 ^ 17"
  "sqliteSub (3 / 10) (3 / 100) = 27 / 100"
  "sqliteSub (3 / 100) (3 / 100) = 0"
  by (simp_all add: sqlite_simps)

lemma sqliteAdd_example:
  "sqliteAdd 0 (1 / 10) = 1 / 10"
  "sqliteAdd 0 (3 / 100) = 3 / 100"
  "sqliteAdd (27 / 100) (3 / 100) = 30000000000000004 / 10 ^ 17"
  by (simp_all add: sqlite_simps)

lemma sqliteSum_example:
  "sqliteSum [1 / 10] = 1 / 10"
  "sqliteSum [1 / 10, 1 / 5] = 30000000000000004 / 10 ^ 17"
  by (simp_all add: sqlite_simps)

section \<open>Properties of the budget entries\<close>

lemma getOrCreate_cases:
  "getOrCreateBudgetEntry b c y m s = Inr (r, s') \<Longrightarrow>
     categoryBudgetId s c = Some b \<and> r = ((c, y, m), assignedAmount s c y m) \<and>
     s' = s\<lparr>budgetEntries := (budgetEntries s)((c, y, m) \<mapsto> assignedAmount s c y m)\<rparr>"
  by (auto simp: getOrCreateBudgetEntry_def assignedAmount_def map_upd_triv split: if_splits option.splits)

lemma getOrCreate_ok:
  "categoryBudgetId s c = Some b \<Longrightarrow>
   getOrCreateBudgetEntry b c y m s =
     Inr (((c, y, m), assignedAmount s c y m),
          s\<lparr>budgetEntries := (budgetEntries s)((c, y, m) \<mapsto> assignedAmount s c y m)\<rparr>)"
  by (auto simp: getOrCreateBudgetEntry_def assignedAmount_def map_upd_triv split: if_splits option.splits)

lemma categoryBudgetId_entries [simp]:
  "categoryBudgetId (s\<lparr>budgetEntries := e\<rparr>) c = categoryBudgetId s c"
  by (simp add: categoryBudgetId_def split: option.splits)

lemma increment_upd [simp]:
  "increment k d (s\<lparr>budgetEntries := (e(k \<mapsto> v))\<rparr>)
     = Inr ((), s\<lparr>budgetEntries := (e(k \<mapsto> sqliteAdd v d))\<rparr>)"
  by (simp add: increment_def)

lemma increment_upd2 [simp]:
  "k \<noteq> k' \<Longrightarrow> increment k d (s\<lparr>budgetEntries := (e(k \<mapsto> v, k' \<mapsto> v'))\<rparr>)
     = Inr ((), s\<lparr>budgetEntries := (e(k \<mapsto> sqliteAdd v d, k' \<mapsto> v'))\<rparr>)"
  by (simp add: increment_def fun_upd_twist)

lemma decrement_upd [simp]:
  "decrement k d (s\<lparr>budgetEntries := (e(k \<mapsto> v))\<rparr>)
     = Inr ((), s\<lparr>budgetEntries := (e(k \<mapsto> sqliteSub v d))\<rparr>)"
  by (simp add: decrement_def)

lemma decrement_upd2 [simp]:
  "k \<noteq> k' \<Longrightarrow> decrement k d (s\<lparr>budgetEntries := (e(k \<mapsto> v, k' \<mapsto> v'))\<rparr>)
     = Inr ((), s\<lparr>budgetEntries := (e(k \<mapsto> sqliteSub v d, k' \<mapsto> v'))\<rparr>)"
  by (simp add: decrement_def fun_upd_twist)

lemma assignedAmount_upd [simp]:
  "assignedAmount (s\<lparr>budgetEntries := (e(k \<mapsto> v))\<rparr>) c y m =
     (if k = (c, y, m) then v else assignedAmount (s\<lparr>budgetEntries := e\<rparr>) c y m)"
  by (simp add: assignedAmount_def)

lemma assignedAmount_same [simp]:
  "assignedAmount (s\<lparr>budgetEntries := budgetEntries s\<rparr>) c y m = assignedAmount s c y m"
  by (simp add: assignedAmount_def)

lemma moveMoney_success:
  assumes "fromCategoryId d \<noteq> toCategoryId d" "0 < moveAmount d"
    and "budgets s b = Some bud" "budget_userId bud = u"
    and "categoryBudgetId s (fromCategoryId d) = Some b"
    and "categoryBudgetId s (toCategoryId d) = Some b"
  shows "moveMoney u b d s =
    (if assignedAmount s (fromCategoryId d) (mm_year d) (mm_month d) < moveAmount d
     then (Inl (HttpException 400 ''Insufficient assigned amount in source category''), s)
     else (Inr (), s\<lparr>budgetEntries := (budgetEntries s)
        ((fromCategoryId d, mm_year d, mm_month d) \<mapsto>
            sqliteSub (assignedAmount s (fromCategoryId d) (mm_year d) (mm_month d))
              (moveAmount d),
         (toCategoryId d, mm_year d, mm_month d) \<mapsto>
            sqliteAdd (assignedAmount s (toCategoryId d) (mm_year d) (mm_month d))
              (moveAmount d))\<rparr>))"
  using assms
  by (simp add: moveMoney_def dollar_transaction_def await_def throw_def getBudgetById_def
      getOrCreate_ok fun_upd_twist)

text \<open>
  C5. \<open>moveMoney\<close> does not move the amount exactly. On the example ledger with 0.3
  assigned to Groceries (10) and nothing to Rent (12) in April 2024, a move of 0.1 from
  Groceries to Rent is accepted; Rent then has 0.1, but Groceries is left with
  0.19999999999999998 and not with 0.3 - 0.1, because the database subtracts in binary
  floating point. A move of 0.2 out of Groceries is then rejected for insufficient funds.
\<close>

theorem moveMoney_drift:
  "moveMoney 7 3
       \<lparr>fromCategoryId = 10, toCategoryId = 12, mm_year = 2024, mm_month = 4,
        moveAmount = 1 / 10\<rparr> centsStore
     = (Inr (), centsStore\<lparr> budgetEntries :=
          [(10, 2024, 4) \<mapsto> 19999999999999998 / 10 ^ 17, (12, 2024, 4) \<mapsto> 1 / 10] \<rparr>)
   \<and> (19999999999999998 / 10 ^ 17 :: Decimal) \<noteq> 3 / 10 - 1 / 10
   \<and> moveMoney 7 3
       \<lparr>fromCategoryId = 10, toCategoryId = 12, mm_year = 2024, mm_month = 4,
        moveAmount = 2 / 10\<rparr>
       (centsStore\<lparr> budgetEntries :=
          [(10, 2024, 4) \<mapsto> 19999999999999998 / 10 ^ 17, (12, 2024, 4) \<mapsto> 1 / 10] \<rparr>)
     = (Inl (HttpException 400 ''Insufficient assigned amount in source category''),
        centsStore\<lparr> budgetEntries :=
          [(10, 2024, 4) \<mapsto> 19999999999999998 / 10 ^ 17, (12, 2024, 4) \<mapsto> 1 / 10] \<rparr>)"
proof -
  let ?s' = "centsStore\<lparr> budgetEntries :=
          [(10, 2024, 4) \<mapsto> 19999999999999998 / 10 ^ 17, (12, 2024, 4) \<mapsto> 1 / 10] \<rparr>"
  have b: "budgets (centsStore\<lparr> budgetEntries := e \<rparr>) 3 = Some \<lparr> budget_userId = 7 \<rparr>"
      "budgets centsStore 3 = Some \<lparr> budget_userId = 7 \<rparr>" for e
    by (simp_all add: centsStore_def exampleStore_def)
  have c: "categoryBudgetId centsStore 10 = Some 3" "categoryBudgetId centsStore 12 = Some 3"
    by (simp_all add: categoryBudgetId_def centsStore_def exampleStore_def)
  have a: "assignedAmount centsStore 10 2024 4 = 3 / 10" "assignedAmount centsStore 12 2024 4 = 0"
    by (simp_all add: assignedAmount_def centsStore_def)
  have e: "budgetEntries centsStore = [(10, 2024, 4) \<mapsto> 3 / 10]"
    by (simp add: centsStore_def)
  have 1: "moveMoney 7 3
       \<lparr>fromCategoryId = 10, toCategoryId = 12, mm_year = 2024, mm_month = 4,
        moveAmount = 1 / 10\<rparr> centsStore = (Inr (), ?s')"
    by (subst moveMoney_success [where bud = "\<lparr> budget_userId = 7 \<rparr>"])
       (simp_all add: b c a sqliteSub_example sqliteAdd_example e)
  have 2: "moveMoney 7 3
       \<lparr>fromCategoryId = 10, toCategoryId = 12, mm_year = 2024, mm_month = 4,
        moveAmount = 2 / 10\<rparr> ?s'
     = (Inl (HttpException 400 ''Insufficient assigned amount in source category''), ?s')"
    by (subst moveMoney_success [where bud = "\<lparr> budget_userId = 7 \<rparr>"])
       (simp_all add: b c assignedAmount_def)
  from 1 2 show ?thesis by simp
qed

section \<open>Properties of the account balances\<close>

text \<open>
  C8. The calculated balances are not the sums of the amounts. For the checking account
  (20) with a cleared inflow of 0.1 and an uncleared inflow of 0.2 the working balance is
  0.30000000000000004, not 0.1 + 0.2, because the database adds in binary floating point;
  the cleared balance is 0.1 and the uncleared balance, their difference, is
  0.20000000000000004. \<open>getAccountById\<close> returns these balances.
\<close>

theorem calculateAccountBalances_drift:
  "calculateAccountBalances 20
       (exampleStore\<lparr> transactions :=
          [exampleTransaction 50 20 (1 / 10) CLEARED,
           exampleTransaction 51 20 (2 / 10) UNCLEARED] \<rparr>)
     = \<lparr> balance = 30000000000000004 / 10 ^ 17, clearedBalance = 1 / 10,
         unclearedBalance = 20000000000000004 / 10 ^ 17 \<rparr>
   \<and> (30000000000000004 / 10 ^ 17 :: Decimal) \<noteq> 1 / 10 + 2 / 10
   \<and> map_sum id acc_balance (getAccountById 7 20
       (exampleStore\<lparr> transactions :=
          [exampleTransaction 50 20 (1 / 10) CLEARED,
           exampleTransaction 51 20 (2 / 10) UNCLEARED] \<rparr>))
     = Inr (30000000000000004 / 10 ^ 17)"
  by (simp add: calculateAccountBalances_def aggregate_sum_amount_def Let_def
      exampleTransaction_def sqliteSum_example getAccountById_def findAccount_def
      exampleStore_def)

section \<open>Properties of the goals\<close>

lemma validateGoalDto_Inr:
  "validateGoalDto dto = Inr dto' \<Longrightarrow>
     ug_type dto' = ug_type dto \<and> ug_name dto' = ug_name dto \<and>
     (case ug_type dto of
        TARGET_BALANCE \<Rightarrow>
          ug_targetAmount dto' = ug_targetAmount dto \<and> ug_targetAmount dto \<noteq> None
          \<and> ug_targetDate dto' = None \<and> ug_monthlyFundingAmount dto' = None
      | TARGET_BALANCE_BY_DATE \<Rightarrow>
          ug_targetAmount dto' = ug_targetAmount dto \<and> ug_targetAmount dto \<noteq> None
          \<and> ug_targetDate dto' = ug_targetDate dto \<and> truthyString (ug_targetDate dto)
          \<and> ug_monthlyFundingAmount dto' = None
      | MONTHLY_FUNDING \<Rightarrow>
          ug_monthlyFundingAmount dto' = ug_monthlyFundingAmount dto
          \<and> ug_monthlyFundingAmount dto \<noteq> None
          \<and> ug_targetAmount dto' = None \<and> ug_targetDate dto' = None)"
  by (auto simp: validateGoalDto_def split: GoalType.splits option.splits if_splits)

lemma validateGoalDto_missing:
  "missingRequiredField dto \<Longrightarrow> \<exists>msg. validateGoalDto dto = Inl (HttpException 400 msg)"
  by (auto simp: validateGoalDto_def missingRequiredField_def truthyString_def
      split: GoalType.splits option.splits if_splits)

lemma upsertGoal_Inr:
  assumes "upsertGoalForCategory u b g c dto s = Inr (goal, s')"
  shows "\<exists>dto'. validateGoalDto dto = Inr dto' \<and> goals s' c = Some goal
     \<and> goal_type goal = ug_type dto
     \<and> goal_targetAmount goal = ug_targetAmount dto'
     \<and> goal_targetDate goal = (if truthyString (ug_targetDate dto') then ug_targetDate dto' else None)
     \<and> goal_monthlyFundingAmount goal = ug_monthlyFundingAmount dto'"
proof (cases "validateGoalDto dto")
  case (Inl e)
  with assms show ?thesis
    by (auto simp: upsertGoalForCategory_def await_def throw_def split: sum.splits)
next
  case (Inr dto')
  from validateGoalDto_Inr [OF Inr] have t: "ug_type dto' = ug_type dto" by simp
  from assms Inr t have "goals s' c = Some goal
     \<and> goal_type goal = ug_type dto
     \<and> goal_targetAmount goal = ug_targetAmount dto'
     \<and> goal_targetDate goal = (if truthyString (ug_targetDate dto') then ug_targetDate dto' else None)
     \<and> goal_monthlyFundingAmount goal = ug_monthlyFundingAmount dto'"
    by (auto simp: upsertGoalForCategory_def await_def throw_def Let_def
        split: sum.splits option.splits prod.splits)
  with Inr show ?thesis by blast
qed

text \<open>
  C9. A goal that \<open>upsertGoalForCategory\<close> accepts is stored under its category with the
  fields of its type set from the request and the other type-specific fields null:
  only the target amount for a target balance, the target amount and date for a target
  balance by date, only the monthly funding amount for monthly funding. A request without
  the field its type requires is rejected: by \<open>validateGoalDto\<close> with a 400 error, which is
  the error of the call when the category check passes.
\<close>

theorem upsertGoal_shape:
  "(upsertGoalForCategory u b g c dto s = Inr (goal, s') \<longrightarrow>
      goals s' c = Some goal \<and> goal_type goal = ug_type dto \<and> goalShapeOk goal
      \<and> (case ug_type dto of
            TARGET_BALANCE \<Rightarrow> goal_targetAmount goal = ug_targetAmount dto
          | TARGET_BALANCE_BY_DATE \<Rightarrow>
              goal_targetAmount goal = ug_targetAmount dto
              \<and> goal_targetDate goal = ug_targetDate dto
          | MONTHLY_FUNDING \<Rightarrow> goal_monthlyFundingAmount goal = ug_monthlyFundingAmount dto))
   \<and> (missingRequiredField dto \<longrightarrow>
        (\<exists>msg. validateGoalDto dto = Inl (HttpException 400 msg))
        \<and> (\<exists>e. upsertGoalForCategory u b g c dto s = Inl e)
        \<and> (\<forall>x. getCategoryById u b g c s = Inr x \<longrightarrow>
             (\<exists>msg. upsertGoalForCategory u b g c dto s = Inl (HttpException 400 msg))))"
proof (rule conjI)
  show "upsertGoalForCategory u b g c dto s = Inr (goal, s') \<longrightarrow>
      goals s' c = Some goal \<and> goal_type goal = ug_type dto \<and> goalShapeOk goal
      \<and> (case ug_type dto of
            TARGET_BALANCE \<Rightarrow> goal_targetAmount goal = ug_targetAmount dto
          | TARGET_BALANCE_BY_DATE \<Rightarrow>
              goal_targetAmount goal = ug_targetAmount dto
              \<and> goal_targetDate goal = ug_targetDate dto
          | MONTHLY_FUNDING \<Rightarrow> goal_monthlyFundingAmount goal = ug_monthlyFundingAmount dto)"
  proof
    assume a: "upsertGoalForCategory u b g c dto s = Inr (goal, s')"
    from upsertGoal_Inr [OF a] obtain dto' where
      v: "validateGoalDto dto = Inr dto'" and g: "goals s' c = Some goal"
        "goal_type goal = ug_type dto"
        "goal_targetAmount goal = ug_targetAmount dto'"
        "goal_targetDate goal = (if truthyString (ug_targetDate dto') then ug_targetDate dto' else None)"
        "goal_monthlyFundingAmount goal = ug_monthlyFundingAmount dto'"
      by blast
    from validateGoalDto_Inr [OF v] g
    show "goals s' c = Some goal \<and> goal_type goal = ug_type dto \<and> goalShapeOk goal
      \<and> (case ug_type dto of
            TARGET_BALANCE \<Rightarrow> goal_targetAmount goal = ug_targetAmount dto
          | TARGET_BALANCE_BY_DATE \<Rightarrow>
              goal_targetAmount goal = ug_targetAmount dto
              \<and> goal_targetDate goal = ug_targetDate dto
          | MONTHLY_FUNDING \<Rightarrow> goal_monthlyFundingAmount goal = ug_monthlyFundingAmount dto)"
      by (cases "ug_type dto") (auto simp: goalShapeOk_def truthyString_def split: option.splits)
  qed
next
  show "missingRequiredField dto \<longrightarrow>
        (\<exists>msg. validateGoalDto dto = Inl (HttpException 400 msg))
        \<and> (\<exists>e. upsertGoalForCategory u b g c dto s = Inl e)
        \<and> (\<forall>x. getCategoryById u b g c s = Inr x \<longrightarrow>
             (\<exists>msg. upsertGoalForCategory u b g c dto s = Inl (HttpException 400 msg)))"
  proof
    assume m: "missingRequiredField dto"
    from validateGoalDto_missing [OF m] obtain msg where
      v: "validateGoalDto dto = Inl (HttpException 400 msg)" by blast
    show "(\<exists>msg. validateGoalDto dto = Inl (HttpException 400 msg))
        \<and> (\<exists>e. upsertGoalForCategory u b g c dto s = Inl e)
        \<and> (\<forall>x. getCategoryById u b g c s = Inr x \<longrightarrow>
             (\<exists>msg. upsertGoalForCategory u b g c dto s = Inl (HttpException 400 msg)))"
      using v by (auto simp: upsertGoalForCategory_def await_def throw_def split: sum.splits)
  qed
qed


lemma getCategoryById_example:
  "getCategoryById 7 3 5 10 exampleStore =
     Inr (\<lparr> cat_id = 10, cat_name = ''Groceries'', cat_categoryGroupId = 5 \<rparr>, exampleStore)"
  by (simp add: getCategoryById_def getCategoryGroupById_def getBudgetById_def await_def
      exampleStore_def)

theorem upsertGoal_shape_witness:
  "(\<exists>goal s'. upsertGoalForCategory 7 3 5 10
        \<lparr> ug_name = Defined ''Food'', ug_type = TARGET_BALANCE, ug_targetAmount = Some 500,
          ug_targetDate = Some ''2025-01-01'', ug_monthlyFundingAmount = Some 20 \<rparr>
        exampleStore = Inr (goal, s')
      \<and> goals s' 10 = Some goal \<and> goal_targetAmount goal = Some 500
      \<and> goal_targetDate goal = None \<and> goal_monthlyFundingAmount goal = None)
   \<and> (\<exists>msg. upsertGoalForCategory 7 3 5 10
        \<lparr> ug_name = Null, ug_type = MONTHLY_FUNDING, ug_targetAmount = Some 500,
          ug_targetDate = None, ug_monthlyFundingAmount = None \<rparr>
        exampleStore = Inl (HttpException 400 msg))"
proof -
  let ?ok = "\<lparr> ug_name = Defined ''Food'', ug_type = TARGET_BALANCE, ug_targetAmount = Some 500,
          ug_targetDate = Some ''2025-01-01'', ug_monthlyFundingAmount = Some 20 \<rparr>"
  let ?bad = "\<lparr> ug_name = Null, ug_type = MONTHLY_FUNDING, ug_targetAmount = Some 500,
          ug_targetDate = None, ug_monthlyFundingAmount = None \<rparr>"
  have "\<exists>goal s'. upsertGoalForCategory 7 3 5 10 ?ok exampleStore = Inr (goal, s')"
    by (simp add: upsertGoalForCategory_def await_def getCategoryById_example
        validateGoalDto_def truthyString_def Let_def split: option.splits)
  then obtain goal s' where
    r: "upsertGoalForCategory 7 3 5 10 ?ok exampleStore = Inr (goal, s')" by blast
  from upsertGoal_shape [of 7 3 5 10 ?ok exampleStore goal s'] r
  have "goals s' 10 = Some goal \<and> goal_targetAmount goal = Some 500 \<and> goalShapeOk goal
        \<and> goal_type goal = TARGET_BALANCE"
    by simp
  then have 1: "goals s' 10 = Some goal \<and> goal_targetAmount goal = Some 500
      \<and> goal_targetDate goal = None \<and> goal_monthlyFundingAmount goal = None"
    by (auto simp: goalShapeOk_def)
  have m: "missingRequiredField ?bad" by (simp add: missingRequiredField_def)
  from upsertGoal_shape [of 7 3 5 10 ?bad exampleStore] m getCategoryById_example
  have 2: "\<exists>msg. upsertGoalForCategory 7 3 5 10 ?bad exampleStore = Inl (HttpException 400 msg)"
    by simp
  from r 1 2 show ?thesis by blast
qed

section \<open>Properties of the budget view\<close>

text \<open>
  C4. \<open>getBudgetView\<close> returns no totals. For the owner of the budget the query for the
  month's transactions is rejected by the Prisma client, because it includes a relation
  \<open>splits\<close> that the schema does not have, and the call ends in that error, as on the
  ledger of April 2024. No call on any store returns a view, so no total is returned.
\<close>

theorem getBudgetView_throws:
  "getBudgetView 7 3 2024 4 viewStore
     = Inl (PrismaError ''Unknown field splits for include statement on model Transaction'')
   \<and> (\<forall>u b y m s v. getBudgetView u b y m s \<noteq> Inr v)"
  by (auto simp: getBudgetView_def findManyIncludeSplits_def getBudgetById_def viewStore_def
      exampleStore_def split: sum.splits option.splits)

section \<open>Execution of createTransaction for a transfer\<close>

lemma findAccount_frame [simp]:
  "findAccount (s\<lparr>nextId := n\<rparr>) = findAccount s"
  "findAccount (s\<lparr>transactions := ts\<rparr>) = findAccount s"
  "findAccount (s\<lparr>splitTransactions := sp\<rparr>) = findAccount s"
  "findAccount (s\<lparr>budgetEntries := e\<rparr>) = findAccount s"
  "findAccount (s\<lparr>payees := ps\<rparr>) = findAccount s"
  by (simp_all add: findAccount_def fun_eq_iff)

lemma categoryBudgetId_frame [simp]:
  "categoryBudgetId (s\<lparr>nextId := n\<rparr>) = categoryBudgetId s"
  "categoryBudgetId (s\<lparr>transactions := ts\<rparr>) = categoryBudgetId s"
  "categoryBudgetId (s\<lparr>splitTransactions := sp\<rparr>) = categoryBudgetId s"
  "categoryBudgetId (s\<lparr>payees := ps\<rparr>) = categoryBudgetId s"
  by (simp_all add: categoryBudgetId_def fun_eq_iff split: option.splits)

lemma findAccount_id: "findAccount s k = Some a \<Longrightarrow> acc_id a = k"
  by (auto simp: findAccount_def find_Some_iff)

lemma categoryBudgetId_Some_find:
  "categoryBudgetId s c = Some b \<Longrightarrow> find (\<lambda>x. cat_id x = c) (categories s) \<noteq> None"
  by (auto simp: categoryBudgetId_def split: option.splits)

lemma await_Inr: "m s = Inr (a, s') \<Longrightarrow> await m f s = f a s'"
  by (simp add: await_def)

lemma await_Inl: "m s = Inl e \<Longrightarrow> await m f s = Inl e"
  by (simp add: await_def)

lemma findSourceAccount_ok:
  "findAccount s k = Some src \<Longrightarrow> budgets s (acc_budgetId src) = Some bud \<Longrightarrow>
   budget_userId bud = u \<Longrightarrow> findSourceAccount u k s = Inr (src, s)"
  by (simp add: findSourceAccount_def)

lemma validateDestinationAccount_ok:
  assumes "ct_transferAccountId d = Some k" "k \<noteq> ct_accountId d"
    "findAccount s k = Some da" "acc_budgetId da = b"
    "enforceTransferCategoryRules src da b (ct_categoryId d) s = Inr ((), s)"
  shows "validateDestinationAccount src b d s = Inr (da, s)"
  using assms by (simp add: validateDestinationAccount_def)

lemma transaction_create_ok:
  assumes "findAccount s (tx_accountId r) \<noteq> None" "budgets s (tx_budgetId r) \<noteq> None"
    "tx_payeeId r = None \<or> (\<exists>p. tx_payeeId r = Some p \<and> find (\<lambda>x. payee_id x = p) (payees s) \<noteq> None)"
    "tx_categoryId r = None \<or> (\<exists>c. tx_categoryId r = Some c \<and> find (\<lambda>x. cat_id x = c) (categories s) \<noteq> None)"
  shows "transaction_create r s =
     Inr (r\<lparr>tx_id := nextId s\<rparr>,
          s\<lparr>transactions := transactions s @ [r\<lparr>tx_id := nextId s\<rparr>], nextId := Suc (nextId s)\<rparr>)"
  using assms by (auto simp: transaction_create_def Let_def)

lemma createSplitTransactions_skip:
  "\<not> truthyBool (ct_isSplit d) \<or> truthyBool (ct_isTransfer d) \<Longrightarrow>
   createSplitTransactions b r d s = Inr ((), s)"
  by (auto simp: createSplitTransactions_def Let_def resolve_def)

lemma handleCcAdjustments_transfer:
  "tx_isTransfer r \<Longrightarrow> handleCcAdjustments b r y m s = Inr ((), s)"
  by (simp add: handleCcAdjustments_def resolve_def split: option.splits)

lemma createRows_transfer:
  assumes t: "truthyBool (ct_isTransfer d)"
    and src: "findAccount s (acc_id src) \<noteq> None" and da: "findAccount s (acc_id da) \<noteq> None"
    and bud: "budgets s b \<noteq> None"
    and cat: "\<And>c. acc_onBudget src \<noteq> acc_onBudget da \<Longrightarrow> ct_categoryId d = Some c
               \<Longrightarrow> find (\<lambda>x. cat_id x = c) (categories s) \<noteq> None"
  shows "createRows src (Some da) b date (Some g) d s =
     (let common = commonData b date (Some g) d;
          r1 = common\<lparr> tx_accountId := acc_id src, tx_amount := - \<bar>ct_amount d\<bar>,
                 tx_payeeId := None,
                 tx_categoryId := (if acc_onBudget src \<and> \<not> acc_onBudget da
                                   then ct_categoryId d else None),
                 tx_transferAccountId := Some (acc_id da), tx_id := nextId s \<rparr>;
          r2 = common\<lparr> tx_accountId := acc_id da, tx_amount := \<bar>ct_amount d\<bar>,
                 tx_payeeId := None,
                 tx_categoryId := (if \<not> acc_onBudget src \<and> acc_onBudget da
                                   then ct_categoryId d else None),
                 tx_transferAccountId := Some (acc_id src), tx_id := Suc (nextId s) \<rparr>
      in Inr ((r1, [r1, r2]),
              s\<lparr>transactions := transactions s @ [r1, r2], nextId := Suc (Suc (nextId s))\<rparr>))"
proof -
  let ?common = "commonData b date (Some g) d"
  let ?d1 = "?common\<lparr> tx_accountId := acc_id src, tx_amount := - \<bar>ct_amount d\<bar>,
                 tx_payeeId := None,
                 tx_categoryId := (if acc_onBudget src \<and> \<not> acc_onBudget da
                                   then ct_categoryId d else None),
                 tx_transferAccountId := Some (acc_id da) \<rparr>"
  let ?d2 = "?common\<lparr> tx_accountId := acc_id da, tx_amount := \<bar>ct_amount d\<bar>,
                 tx_payeeId := None,
                 tx_categoryId := (if \<not> acc_onBudget src \<and> acc_onBudget da
                                   then ct_categoryId d else None),
                 tx_transferAccountId := Some (acc_id src) \<rparr>"
  let ?s1 = "s\<lparr>transactions := transactions s @ [?d1\<lparr>tx_id := nextId s\<rparr>], nextId := Suc (nextId s)\<rparr>"
  have k1: "tx_categoryId ?d1 = None \<or> (\<exists>c. tx_categoryId ?d1 = Some c
               \<and> find (\<lambda>x. cat_id x = c) (categories s) \<noteq> None)"
    using cat by (cases "ct_categoryId d") auto
  have k2: "tx_categoryId ?d2 = None \<or> (\<exists>c. tx_categoryId ?d2 = Some c
               \<and> find (\<lambda>x. cat_id x = c) (categories s) \<noteq> None)"
    using cat by (cases "ct_categoryId d") auto
  have c1: "transaction_create ?d1 s = Inr (?d1\<lparr>tx_id := nextId s\<rparr>, ?s1)"
    using src bud k1 by (intro transaction_create_ok) (simp_all add: commonData_def)
  have c2: "transaction_create ?d2 ?s1 = Inr (?d2\<lparr>tx_id := nextId ?s1\<rparr>,
      ?s1\<lparr>transactions := transactions ?s1 @ [?d2\<lparr>tx_id := nextId ?s1\<rparr>], nextId := Suc (nextId ?s1)\<rparr>)"
    using da bud k2 by (intro transaction_create_ok) (simp_all add: commonData_def)
  show ?thesis
    unfolding createRows_def Let_def using t
    by (simp add: await_def c1 c2 resolve_def)
qed

lemma createTransaction_transfer:
  assumes t: "truthyBool (ct_isTransfer d)"
    and src: "findAccount s (ct_accountId d) = Some src"
    and bud: "budgets s (acc_budgetId src) = Some bud" "budget_userId bud = u"
    and dst: "ct_transferAccountId d = Some k" "k \<noteq> ct_accountId d"
       "findAccount s k = Some da" "acc_budgetId da = acc_budgetId src"
    and rules: "enforceTransferCategoryRules src da (acc_budgetId src) (ct_categoryId d)
                  (s\<lparr>nextId := Suc (nextId s)\<rparr>) = Inr ((), s\<lparr>nextId := Suc (nextId s)\<rparr>)"
  shows "createTransaction now u d s =
     (let rows = transferRows now d src da (nextId s);
          date = (case ct_date d of Some x \<Rightarrow> x | None \<Rightarrow> now)
      in case handleTransferToCreditCard (acc_budgetId src) src (Some da) (hd rows) rows
             (ct_amount d) (getFullYear date) (getMonth date + 1)
             (s\<lparr> transactions := transactions s @ rows, nextId := Suc (Suc (Suc (nextId s))) \<rparr>) of
           Inl e \<Rightarrow> (Inl e, s\<lparr>nextId := Suc (nextId s)\<rparr>)
         | Inr (_, s') \<Rightarrow> (Inr (Array rows), s'))"
proof -
  let ?s1 = "s\<lparr>nextId := Suc (nextId s)\<rparr>"
  let ?date = "(case ct_date d of Some x \<Rightarrow> x | None \<Rightarrow> now)"
  let ?b = "acc_budgetId src"
  have ids: "acc_id src = ct_accountId d" "acc_id da = k"
    using src dst by (auto dest: findAccount_id)
  have catfk: "acc_onBudget src \<noteq> acc_onBudget da \<Longrightarrow> ct_categoryId d = Some c \<Longrightarrow> find (\<lambda>x. cat_id x = c) (categories ?s1) \<noteq> None" for c
    using rules
    by (auto simp: enforceTransferCategoryRules_def validateCategory_def throw_def resolve_def
        categoryBudgetId_def split: if_splits option.splits)
  have 1: "findSourceAccount u (ct_accountId d) ?s1 = Inr (src, ?s1)"
    using src bud by (intro findSourceAccount_ok) simp_all
  have 2: "validateDestinationAccount src ?b d ?s1 = Inr (da, ?s1)"
    using dst rules by (intro validateDestinationAccount_ok) simp_all
  have 3: "createRows src (Some da) ?b ?date (Some (nextId s)) d ?s1 = 
     (let common = commonData ?b ?date (Some (nextId s)) d;
          r1 = common\<lparr> tx_accountId := acc_id src, tx_amount := - \<bar>ct_amount d\<bar>,
                 tx_payeeId := None,
                 tx_categoryId := (if acc_onBudget src \<and> \<not> acc_onBudget da
                                   then ct_categoryId d else None),
                 tx_transferAccountId := Some (acc_id da), tx_id := nextId ?s1 \<rparr>;
          r2 = common\<lparr> tx_accountId := acc_id da, tx_amount := \<bar>ct_amount d\<bar>,
                 tx_payeeId := None,
                 tx_categoryId := (if \<not> acc_onBudget src \<and> acc_onBudget da
                                   then ct_categoryId d else None),
                 tx_transferAccountId := Some (acc_id src), tx_id := Suc (nextId ?s1) \<rparr>
      in Inr ((r1, [r1, r2]),
              ?s1\<lparr>transactions := transactions ?s1 @ [r1, r2], nextId := Suc (Suc (nextId ?s1))\<rparr>))"
    using src dst bud ids catfk by (intro createRows_transfer t) simp_all
  have tr: "tx_isTransfer (commonData ?b ?date g d)" for g
    using t by (simp add: commonData_def truthyBool_def)
  let ?rows = "transferRows now d src da (nextId s)"
  let ?H = "handleTransferToCreditCard ?b src (Some da) (hd ?rows) ?rows
             (ct_amount d) (getFullYear ?date) (getMonth ?date + 1)
             (s\<lparr> transactions := transactions s @ ?rows, nextId := Suc (Suc (Suc (nextId s))) \<rparr>)"
  show ?thesis
  proof (cases ?H)
    case (Inl e)
    then show ?thesis
      unfolding createTransaction_def Let_def dollar_transaction_def
      using t
      by (simp add: 1 2 resolve_def 3 [unfolded Let_def] await_def
        createSplitTransactions_skip handleCcAdjustments_transfer tr transferRows_def Let_def
        split_def)
  next
    case (Inr p)
    then show ?thesis
      unfolding createTransaction_def Let_def dollar_transaction_def
      using t
      by (cases p) (simp add: 1 2 resolve_def 3 [unfolded Let_def] await_def
        createSplitTransactions_skip handleCcAdjustments_transfer tr transferRows_def Let_def
        split_def)
  qed
qed


lemma handleCreditCardPayment_ok:
  "categoryBudgetId s pc = Some b \<Longrightarrow>
   handleCreditCardPayment b pc a y m s =
     Inr ((), if a \<le> 0 then s
              else s\<lparr>budgetEntries := (budgetEntries s)
                     ((pc, y, m) \<mapsto> sqliteSub (assignedAmount s pc y m) a)\<rparr>)"
  by (auto simp: handleCreditCardPayment_def isNegative_def isZero_def resolve_def await_def
      getOrCreate_ok)

lemma revertCreditCardPayment_ok:
  "categoryBudgetId s pc = Some b \<Longrightarrow>
   revertCreditCardPayment b pc a y m s =
     Inr ((), if a \<le> 0 then s
              else s\<lparr>budgetEntries := (budgetEntries s)
                     ((pc, y, m) \<mapsto> sqliteAdd (assignedAmount s pc y m) a)\<rparr>)"
  by (auto simp: revertCreditCardPayment_def isNegative_def isZero_def resolve_def await_def
      getOrCreate_ok)

lemma handleCreditCardPayment_frame:
  "handleCreditCardPayment b pc a y m s = Inr (x, s') \<Longrightarrow> s' = s\<lparr>budgetEntries := budgetEntries s'\<rparr>"
  by (auto simp: handleCreditCardPayment_def isNegative_def isZero_def resolve_def await_def
      decrement_def increment_def split: if_splits sum.splits option.splits dest!: getOrCreate_cases)

lemma handleTransferToCreditCard_frame:
  "handleTransferToCreditCard b src da r rows a y m s = Inr (x, s') \<Longrightarrow>
     s' = s\<lparr>budgetEntries := budgetEntries s'\<rparr>"
  by (auto simp: handleTransferToCreditCard_def resolve_def
      split: option.splits if_splits dest: handleCreditCardPayment_frame)

section \<open>Properties of the transfer category rules\<close>

lemma example_lookups:
  "findAccount exampleStore 20 = Some \<lparr> acc_id = 20, acc_type = CHECKING, acc_onBudget = True, acc_balance = 0,
                 acc_clearedBalance = 0, acc_unclearedBalance = 0, acc_budgetId = 3,
                 acc_paymentCategoryId = None \<rparr>"
  "findAccount exampleStore 21 = Some \<lparr> acc_id = 21, acc_type = CREDIT_CARD, acc_onBudget = True, acc_balance = 0,
                 acc_clearedBalance = 0, acc_unclearedBalance = 0, acc_budgetId = 3,
                 acc_paymentCategoryId = Some 11 \<rparr>"
  "findAccount exampleStore 22 = Some \<lparr> acc_id = 22, acc_type = INVESTMENT, acc_onBudget = False, acc_balance = 0,
                 acc_clearedBalance = 0, acc_unclearedBalance = 0, acc_budgetId = 3,
                 acc_paymentCategoryId = None \<rparr>"
  "findAccount exampleStore 23 = Some \<lparr> acc_id = 23, acc_type = MORTGAGE, acc_onBudget = False, acc_balance = 0,
                 acc_clearedBalance = 0, acc_unclearedBalance = 0, acc_budgetId = 3,
                 acc_paymentCategoryId = None \<rparr>"
  "budgets exampleStore 3 = Some \<lparr> budget_userId = 7 \<rparr>"
  "nextId exampleStore = 100"
  "transactions exampleStore = []"
  "payees exampleStore = []"
  "splitTransactions exampleStore = []"
  by (simp_all add: exampleStore_def findAccount_def)

text \<open>
  C7, as stated, fails for two tracking accounts: a transfer between the tracking accounts
  22 and 23 that names a category is accepted, and both rows are stored without it.
\<close>

theorem tracking_transfer_category_counterexample:
  "fst (createTransaction april2024 7
          (exampleCreateDto\<lparr> ct_accountId := 22, ct_isTransfer := Some True,
              ct_transferAccountId := Some 23, ct_categoryId := Some 10 \<rparr>) exampleStore)
   = Inr (Array
       [\<lparr> tx_id = 101, tx_date = april2024, tx_amount = - 50, tx_memo = None,
          tx_cleared = UNCLEARED, tx_approved = False, tx_isTransfer = True,
          tx_transferAccountId = Some 23, tx_transferGroupId = Some 100, tx_isSplit = False,
          tx_accountId = 22, tx_payeeId = None, tx_categoryId = None, tx_budgetId = 3 \<rparr>,
        \<lparr> tx_id = 102, tx_date = april2024, tx_amount = 50, tx_memo = None,
          tx_cleared = UNCLEARED, tx_approved = False, tx_isTransfer = True,
          tx_transferAccountId = Some 22, tx_transferGroupId = Some 100, tx_isSplit = False,
          tx_accountId = 23, tx_payeeId = None, tx_categoryId = None, tx_budgetId = 3 \<rparr>])"
  by (simp add: createTransaction_def Let_def dollar_transaction_def await_def
        findSourceAccount_def validateDestinationAccount_def resolve_def throw_def
        createRows_def transaction_create_def commonData_def truthyBool_def
        createSplitTransactions_def handleCcAdjustments_def handleTransferToCreditCard_def
        enforceTransferCategoryRules_def exampleCreateDto_def example_lookups)


lemma createTransaction_transfer_rejected:
  assumes t: "truthyBool (ct_isTransfer d)"
    and src: "findAccount s (ct_accountId d) = Some src"
    and bud: "budgets s (acc_budgetId src) = Some bud" "budget_userId bud = u"
    and dst: "ct_transferAccountId d = Some k" "k \<noteq> ct_accountId d"
       "findAccount s k = Some da" "acc_budgetId da = acc_budgetId src"
    and rules: "enforceTransferCategoryRules src da (acc_budgetId src) (ct_categoryId d)
                  (s\<lparr>nextId := Suc (nextId s)\<rparr>) = Inl e"
  shows "fst (createTransaction now u d s) = Inl e"
proof -
  let ?s1 = "s\<lparr>nextId := Suc (nextId s)\<rparr>"
  have 1: "findSourceAccount u (ct_accountId d) ?s1 = Inr (src, ?s1)"
    using src bud by (intro findSourceAccount_ok) simp_all
  have 2: "validateDestinationAccount src (acc_budgetId src) d ?s1 = Inl e"
    using dst rules by (simp add: validateDestinationAccount_def)
  show ?thesis
    unfolding createTransaction_def Let_def dollar_transaction_def
    using t by (simp add: 1 2 await_def)
qed

lemma enforce_tracking_source:
  "\<not> acc_onBudget src \<Longrightarrow>
   ct = None \<or> (\<exists>c. ct = Some c \<and> categoryBudgetId s c = Some b) \<or> \<not> acc_onBudget da \<Longrightarrow>
   enforceTransferCategoryRules src da b ct s = Inr ((), s)"
  by (auto simp: enforceTransferCategoryRules_def validateCategory_def resolve_def)

lemma handleTransferToCreditCard_tracking_source:
  "\<not> acc_onBudget src \<Longrightarrow> handleTransferToCreditCard b src da r rows a y m s = Inr ((), s)"
  by (simp add: handleTransferToCreditCard_def resolve_def split: option.splits)

text \<open>
  C7, amended. For a transfer request whose source account belongs to the caller and
  whose destination is another account of the same budget: a category is rejected when
  both accounts are on budget; a missing category is rejected when the source is on
  budget and the destination is tracking; from a tracking source to a budget account the
  request is accepted without a category or with a category of the budget; between two
  tracking accounts the request is accepted with or without a category, and the rows
  carry none.
\<close>

theorem transfer_category_rules:
  assumes "truthyBool (ct_isTransfer d)"
    and "findAccount s (ct_accountId d) = Some src"
    and "budgets s (acc_budgetId src) = Some bud" "budget_userId bud = u"
    and "ct_transferAccountId d = Some k" "k \<noteq> ct_accountId d"
       "findAccount s k = Some da" "acc_budgetId da = acc_budgetId src"
  shows "(acc_onBudget src \<and> acc_onBudget da \<and> ct_categoryId d \<noteq> None \<longrightarrow>
            fst (createTransaction now u d s) = Inl (HttpException 400
              ''Category cannot be assigned to transfers between two budget accounts''))
       \<and> (acc_onBudget src \<and> \<not> acc_onBudget da \<and> ct_categoryId d = None \<longrightarrow>
            fst (createTransaction now u d s) = Inl (HttpException 400
              ''Category is required for transfers from a budget account to a tracking account''))
       \<and> (\<not> acc_onBudget src \<and> acc_onBudget da
            \<and> (ct_categoryId d = None
                \<or> (\<exists>c. ct_categoryId d = Some c
                        \<and> categoryBudgetId s c = Some (acc_budgetId src))) \<longrightarrow>
            fst (createTransaction now u d s)
              = Inr (Array (transferRows now d src da (nextId s))))
       \<and> (\<not> acc_onBudget src \<and> \<not> acc_onBudget da \<longrightarrow>
            fst (createTransaction now u d s)
              = Inr (Array (transferRows now d src da (nextId s)))
            \<and> map tx_categoryId (transferRows now d src da (nextId s)) = [None, None])"
proof -
  let ?s1 = "s\<lparr>nextId := Suc (nextId s)\<rparr>"
  let ?b = "acc_budgetId src"
  note rej = createTransaction_transfer_rejected [OF assms]
  note acc = createTransaction_transfer [OF assms]
  have a: "acc_onBudget src \<and> acc_onBudget da \<and> ct_categoryId d \<noteq> None \<longrightarrow>
            fst (createTransaction now u d s) = Inl (HttpException 400
              ''Category cannot be assigned to transfers between two budget accounts'')"
    by (auto intro!: rej simp: enforceTransferCategoryRules_def throw_def)
  have b: "acc_onBudget src \<and> \<not> acc_onBudget da \<and> ct_categoryId d = None \<longrightarrow>
            fst (createTransaction now u d s) = Inl (HttpException 400
              ''Category is required for transfers from a budget account to a tracking account'')"
    by (auto intro!: rej simp: enforceTransferCategoryRules_def throw_def)
  have ok: "fst (createTransaction now u d s) = Inr (Array (transferRows now d src da (nextId s)))"
    if "\<not> acc_onBudget src"
       "ct_categoryId d = None \<or> (\<exists>c. ct_categoryId d = Some c \<and> categoryBudgetId s c = Some ?b)
          \<or> \<not> acc_onBudget da"
  proof -
    have r: "enforceTransferCategoryRules src da ?b (ct_categoryId d) ?s1 = Inr ((), ?s1)"
      using that by (intro enforce_tracking_source) simp_all
    show ?thesis
      unfolding acc [OF r] Let_def
      by (simp add: handleTransferToCreditCard_tracking_source [OF that(1)])
  qed
  have c: "\<not> acc_onBudget src \<and> acc_onBudget da
            \<and> (ct_categoryId d = None
                \<or> (\<exists>c. ct_categoryId d = Some c
                        \<and> categoryBudgetId s c = Some (acc_budgetId src))) \<longrightarrow>
            fst (createTransaction now u d s)
              = Inr (Array (transferRows now d src da (nextId s)))"
    using ok by blast
  have d: "\<not> acc_onBudget src \<and> \<not> acc_onBudget da \<longrightarrow>
            fst (createTransaction now u d s)
              = Inr (Array (transferRows now d src da (nextId s)))
            \<and> map tx_categoryId (transferRows now d src da (nextId s)) = [None, None]"
    using ok by (auto simp: transferRows_def Let_def)
  from a b c d show ?thesis by blast
qed

theorem transfer_category_rules_witness:
  "fst (createTransaction april2024 7
          (exampleCreateDto\<lparr> ct_accountId := 20, ct_isTransfer := Some True,
              ct_transferAccountId := Some 21, ct_categoryId := Some 10 \<rparr>) exampleStore)
     = Inl (HttpException 400
              ''Category cannot be assigned to transfers between two budget accounts'')
   \<and> fst (createTransaction april2024 7
          (exampleCreateDto\<lparr> ct_accountId := 20, ct_isTransfer := Some True,
              ct_transferAccountId := Some 22 \<rparr>) exampleStore)
     = Inl (HttpException 400
              ''Category is required for transfers from a budget account to a tracking account'')
   \<and> (\<exists>rows. fst (createTransaction april2024 7
          (exampleCreateDto\<lparr> ct_accountId := 22, ct_isTransfer := Some True,
              ct_transferAccountId := Some 20, ct_categoryId := Some 10 \<rparr>) exampleStore)
     = Inr (Array rows) \<and> map tx_categoryId rows = [None, Some 10])
   \<and> (\<exists>rows. fst (createTransaction april2024 7
          (exampleCreateDto\<lparr> ct_accountId := 22, ct_isTransfer := Some True,
              ct_transferAccountId := Some 23, ct_categoryId := Some 10 \<rparr>) exampleStore)
     = Inr (Array rows) \<and> map tx_categoryId rows = [None, None])"
proof -
  let ?d1 = "exampleCreateDto\<lparr> ct_accountId := 20, ct_isTransfer := Some True,
              ct_transferAccountId := Some 21, ct_categoryId := Some 10 \<rparr>"
  let ?d2 = "exampleCreateDto\<lparr> ct_accountId := 20, ct_isTransfer := Some True,
              ct_transferAccountId := Some 22 \<rparr>"
  let ?d3 = "exampleCreateDto\<lparr> ct_accountId := 22, ct_isTransfer := Some True,
              ct_transferAccountId := Some 20, ct_categoryId := Some 10 \<rparr>"
  let ?d4 = "exampleCreateDto\<lparr> ct_accountId := 22, ct_isTransfer := Some True,
              ct_transferAccountId := Some 23, ct_categoryId := Some 10 \<rparr>"
  have c10: "categoryBudgetId exampleStore 10 = Some 3"
    by (simp add: categoryBudgetId_def exampleStore_def)
  have 1: "fst (createTransaction april2024 7 ?d1 exampleStore)
     = Inl (HttpException 400
              ''Category cannot be assigned to transfers between two budget accounts'')"
    using transfer_category_rules [of ?d1 exampleStore _ _ 7 21 _ april2024]
    by (simp add: example_lookups exampleCreateDto_def truthyBool_def)
  have 2: "fst (createTransaction april2024 7 ?d2 exampleStore)
     = Inl (HttpException 400
              ''Category is required for transfers from a budget account to a tracking account'')"
    using transfer_category_rules [of ?d2 exampleStore _ _ 7 22 _ april2024]
    by (simp add: example_lookups exampleCreateDto_def truthyBool_def)
  have 3: "fst (createTransaction april2024 7 ?d3 exampleStore)
     = Inr (Array (transferRows april2024 ?d3 (the (findAccount exampleStore 22))
                     (the (findAccount exampleStore 20)) 100))"
    using transfer_category_rules [of ?d3 exampleStore _ _ 7 20 _ april2024] c10
    by (simp add: example_lookups exampleCreateDto_def truthyBool_def)
  have 4: "fst (createTransaction april2024 7 ?d4 exampleStore)
     = Inr (Array (transferRows april2024 ?d4 (the (findAccount exampleStore 22))
                     (the (findAccount exampleStore 23)) 100))"
    using transfer_category_rules [of ?d4 exampleStore _ _ 7 23 _ april2024]
    by (simp add: example_lookups exampleCreateDto_def truthyBool_def)
  have 5: "map tx_categoryId (transferRows april2024 ?d3 (the (findAccount exampleStore 22))
                     (the (findAccount exampleStore 20)) 100) = [None, Some 10]"
       "map tx_categoryId (transferRows april2024 ?d4 (the (findAccount exampleStore 22))
                     (the (findAccount exampleStore 23)) 100) = [None, None]"
    by (simp_all add: transferRows_def Let_def example_lookups exampleCreateDto_def)
  from 1 2 3 4 5 show ?thesis by simp
qed

section \<open>Properties of transfer pairs\<close>

lemma findSourceAccount_Inr:
  "findSourceAccount u k s = Inr (src, s') \<Longrightarrow>
     s' = s \<and> findAccount s k = Some src
     \<and> (\<exists>bud. budgets s (acc_budgetId src) = Some bud \<and> budget_userId bud = u)"
  by (auto simp: findSourceAccount_def split: option.splits if_splits)

lemma enforceTransferCategoryRules_Inr:
  "enforceTransferCategoryRules src da b c s = Inr (x, s') \<Longrightarrow> s' = s"
  by (auto simp: enforceTransferCategoryRules_def validateCategory_def resolve_def throw_def
      Let_def split: if_splits option.splits)

lemma validateDestinationAccount_Inr:
  "validateDestinationAccount src b d s = Inr (da, s') \<Longrightarrow>
     s' = s \<and> (\<exists>k. ct_transferAccountId d = Some k \<and> k \<noteq> ct_accountId d
                  \<and> findAccount s k = Some da) \<and> acc_budgetId da = b
     \<and> enforceTransferCategoryRules src da b (ct_categoryId d) s = Inr ((), s)"
  by (auto simp: validateDestinationAccount_def throw_def
      split: option.splits if_splits sum.splits dest: enforceTransferCategoryRules_Inr)

lemma createTransaction_transfer_Inr:
  assumes "createTransaction now u d s = (Inr r, s')" and t: "truthyBool (ct_isTransfer d)"
  shows "\<exists>src bud k da.
      findAccount s (ct_accountId d) = Some src
    \<and> budgets s (acc_budgetId src) = Some bud \<and> budget_userId bud = u
    \<and> ct_transferAccountId d = Some k \<and> k \<noteq> ct_accountId d
    \<and> findAccount s k = Some da \<and> acc_budgetId da = acc_budgetId src
    \<and> enforceTransferCategoryRules src da (acc_budgetId src) (ct_categoryId d)
                  (s\<lparr>nextId := Suc (nextId s)\<rparr>) = Inr ((), s\<lparr>nextId := Suc (nextId s)\<rparr>)"
proof -
  let ?s1 = "s\<lparr>nextId := Suc (nextId s)\<rparr>"
  obtain src sa where 1: "findSourceAccount u (ct_accountId d) ?s1 = Inr (src, sa)"
    using assms
    by (cases "findSourceAccount u (ct_accountId d) ?s1")
       (auto simp: createTransaction_def Let_def dollar_transaction_def await_def)
  from findSourceAccount_Inr [OF 1] have sa: "sa = ?s1" and
    src: "findAccount s (ct_accountId d) = Some src"
      "\<exists>bud. budgets s (acc_budgetId src) = Some bud \<and> budget_userId bud = u"
    by simp_all
  obtain da sb where 2: "validateDestinationAccount src (acc_budgetId src) d ?s1 = Inr (da, sb)"
    using assms 1
    by (cases "validateDestinationAccount src (acc_budgetId src) d ?s1")
       (auto simp: createTransaction_def Let_def dollar_transaction_def await_def sa)
  from validateDestinationAccount_Inr [OF 2] src show ?thesis by auto
qed


lemma revertBudgetAdjustments_transfer_ok:
  assumes "tx_isTransfer r"
    and "\<And>pc. acc_paymentCategoryId a1 = Some pc \<Longrightarrow> categoryBudgetId s pc = Some (tx_budgetId r)"
    and "\<And>pc. acc_paymentCategoryId a2 = Some pc \<Longrightarrow> categoryBudgetId s pc = Some (tx_budgetId r)"
  shows "\<exists>e. revertBudgetAdjustments r (Some a1) (Some a2) y m s
            = Inr ((), s\<lparr>budgetEntries := e\<rparr>)"
proof -
  have triv: "\<exists>e. Inr ((), s) = Inr ((), s\<lparr>budgetEntries := e\<rparr>)"
    by (rule exI [of _ "budgetEntries s"]) simp
  have pay: "\<exists>e. revertCreditCardPayment (tx_budgetId r) pc \<bar>tx_amount r\<bar> y m s
            = Inr ((), s\<lparr>budgetEntries := e\<rparr>)"
    if "categoryBudgetId s pc = Some (tx_budgetId r)" for pc
    unfolding revertCreditCardPayment_ok [OF that] using triv by auto
  show ?thesis
    using assms(1) assms(2) assms(3) triv pay
    by (auto simp: revertBudgetAdjustments_def Let_def resolve_def split: option.splits)
qed

lemma deleteTransaction_transfer_row:
  assumes f: "find (\<lambda>t. tx_id t = i) (transactions s) = Some r"
    and b: "budgets s (tx_budgetId r) = Some bud" "budget_userId bud = u"
    and tr: "tx_isTransfer r" "tx_transferGroupId r = Some g"
    and p: "find (\<lambda>t. tx_transferGroupId t = Some g \<and> tx_id t \<noteq> i) (transactions s) = Some r'"
    and k: "tx_transferAccountId r = Some k"
    and a1: "findAccount s (tx_accountId r) = Some a1" and a2: "findAccount s k = Some a2"
    and pc1: "\<And>pc. acc_paymentCategoryId a1 = Some pc \<Longrightarrow> categoryBudgetId s pc = Some (tx_budgetId r)"
    and pc2: "\<And>pc. acc_paymentCategoryId a2 = Some pc \<Longrightarrow> categoryBudgetId s pc = Some (tx_budgetId r)"
  shows "\<exists>s'. deleteTransaction u i s = (Inr (), s')
      \<and> transactions s' = filter (\<lambda>t. tx_id t \<noteq> i \<and> tx_id t \<noteq> tx_id r') (transactions s)"
proof -
  have id: "tx_id r = i" using f by (auto simp: find_Some_iff)
  have 1: "findExistingTransaction u i s = Inr (r, s)"
    using f b by (simp add: findExistingTransaction_def)
  have 2: "findPairedTransactionId r s = Some (tx_id r')"
    using tr p by (simp add: findPairedTransactionId_def id)
  obtain e where 3: "revertBudgetAdjustments r (Some a1) (Some a2)
        (getFullYear (tx_date r)) (getMonth (tx_date r) + 1) s = Inr ((), s\<lparr>budgetEntries := e\<rparr>)"
    using revertBudgetAdjustments_transfer_ok [OF tr(1) pc1 pc2] by blast
  show ?thesis
    unfolding deleteTransaction_def dollar_transaction_def
    by (simp add: await_def 1 2 Let_def k a1 a2 3 deleteMany_def)
qed


lemma findAccount_in_set: "findAccount s k = Some a \<Longrightarrow> a \<in> set (accounts s)"
  by (auto simp: findAccount_def find_Some_iff)

lemma paymentCategory_in_budget:
  "paymentCategoriesInBudget s \<Longrightarrow> findAccount s k = Some a \<Longrightarrow>
   acc_paymentCategoryId a = Some pc \<Longrightarrow> categoryBudgetId s pc = Some (acc_budgetId a)"
  by (auto simp: paymentCategoriesInBudget_def list_all_iff dest!: findAccount_in_set)

lemma freshIds_tx:
  "freshIds s \<Longrightarrow> t \<in> set (transactions s) \<Longrightarrow>
     tx_id t < nextId s \<and> (\<forall>g. tx_transferGroupId t = Some g \<longrightarrow> g < nextId s)"
  by (auto simp: freshIds_def list_all_iff split: option.splits)

lemma find_append_new:
  "(\<And>x. x \<in> set xs \<Longrightarrow> \<not> P x) \<Longrightarrow> find P (xs @ ys) = find P ys"
  by (induction xs) auto

lemma filter_append_new:
  "(\<And>x. x \<in> set xs \<Longrightarrow> P x) \<Longrightarrow> filter P (xs @ ys) = xs @ filter P ys"
  by (induction xs) auto

lemma transferRows_fields:
  "transferRows now d src da n = [r1, r2] \<Longrightarrow>
     tx_id r1 = Suc n \<and> tx_id r2 = Suc (Suc n)
   \<and> tx_transferGroupId r1 = Some n \<and> tx_transferGroupId r2 = Some n
   \<and> tx_isTransfer r1 = (case ct_isTransfer d of Some b \<Rightarrow> b | None \<Rightarrow> False)
   \<and> tx_isTransfer r2 = (case ct_isTransfer d of Some b \<Rightarrow> b | None \<Rightarrow> False)
   \<and> tx_accountId r1 = acc_id src \<and> tx_accountId r2 = acc_id da
   \<and> tx_transferAccountId r1 = Some (acc_id da) \<and> tx_transferAccountId r2 = Some (acc_id src)
   \<and> tx_amount r1 = - \<bar>ct_amount d\<bar> \<and> tx_amount r2 = \<bar>ct_amount d\<bar>
   \<and> tx_budgetId r1 = acc_budgetId src \<and> tx_budgetId r2 = acc_budgetId src"
  by (auto simp: transferRows_def Let_def commonData_def)

lemma transferRows_two: "\<exists>r1 r2. transferRows now d src da n = [r1, r2]"
  by (simp add: transferRows_def Let_def)

lemma createTransaction_transfer_result:
  assumes c: "createTransaction now u d s = (Inr r, s')" and t: "truthyBool (ct_isTransfer d)"
  shows "\<exists>src da k bud e.
      findAccount s (ct_accountId d) = Some src
    \<and> budgets s (acc_budgetId src) = Some bud \<and> budget_userId bud = u
    \<and> ct_transferAccountId d = Some k \<and> k \<noteq> ct_accountId d
    \<and> findAccount s k = Some da \<and> acc_budgetId da = acc_budgetId src
    \<and> r = Array (transferRows now d src da (nextId s))
    \<and> s' = s\<lparr> transactions := transactions s @ transferRows now d src da (nextId s),
              nextId := Suc (Suc (Suc (nextId s))), budgetEntries := e \<rparr>"
proof -
  from createTransaction_transfer_Inr [OF c t] obtain src bud k da where
    h: "findAccount s (ct_accountId d) = Some src"
       "budgets s (acc_budgetId src) = Some bud" "budget_userId bud = u"
       "ct_transferAccountId d = Some k" "k \<noteq> ct_accountId d"
       "findAccount s k = Some da" "acc_budgetId da = acc_budgetId src"
       "enforceTransferCategoryRules src da (acc_budgetId src) (ct_categoryId d)
                  (s\<lparr>nextId := Suc (nextId s)\<rparr>) = Inr ((), s\<lparr>nextId := Suc (nextId s)\<rparr>)"
    by blast
  let ?rows = "transferRows now d src da (nextId s)"
  let ?date = "(case ct_date d of Some x \<Rightarrow> x | None \<Rightarrow> now)"
  let ?s3 = "s\<lparr> transactions := transactions s @ ?rows, nextId := Suc (Suc (Suc (nextId s))) \<rparr>"
  let ?H = "handleTransferToCreditCard (acc_budgetId src) src (Some da) (hd ?rows) ?rows
             (ct_amount d) (getFullYear ?date) (getMonth ?date + 1) ?s3"
  note eq = createTransaction_transfer [OF t h, of now, unfolded Let_def]
  from c eq obtain x where H: "?H = Inr (x, s')" and r: "r = Array ?rows"
    by (cases ?H) (auto split: prod.splits)
  from handleTransferToCreditCard_frame [OF H]
  have "s' = s\<lparr> transactions := transactions s @ ?rows,
              nextId := Suc (Suc (Suc (nextId s))), budgetEntries := budgetEntries s' \<rparr>"
    by simp
  with h r show ?thesis by blast
qed


text \<open>
  C3, as stated, fails at the amount 0: the transfer is accepted and both rows have the
  amount 0, so the source row is not negative and the destination row is not positive.
\<close>

theorem zero_transfer_counterexample:
  "fst (createTransaction april2024 7
          (exampleCreateDto\<lparr> ct_amount := 0, ct_isTransfer := Some True,
              ct_transferAccountId := Some 21 \<rparr>) exampleStore)
   = Inr (Array
       [\<lparr> tx_id = 101, tx_date = april2024, tx_amount = 0, tx_memo = None,
          tx_cleared = UNCLEARED, tx_approved = False, tx_isTransfer = True,
          tx_transferAccountId = Some 21, tx_transferGroupId = Some 100, tx_isSplit = False,
          tx_accountId = 20, tx_payeeId = None, tx_categoryId = None, tx_budgetId = 3 \<rparr>,
        \<lparr> tx_id = 102, tx_date = april2024, tx_amount = 0, tx_memo = None,
          tx_cleared = UNCLEARED, tx_approved = False, tx_isTransfer = True,
          tx_transferAccountId = Some 20, tx_transferGroupId = Some 100, tx_isSplit = False,
          tx_accountId = 21, tx_payeeId = None, tx_categoryId = None, tx_budgetId = 3 \<rparr>])"
  by (simp add: createTransaction_def Let_def dollar_transaction_def await_def
        findSourceAccount_def validateDestinationAccount_def resolve_def throw_def
        createRows_def transaction_create_def commonData_def truthyBool_def
        createSplitTransactions_def handleCcAdjustments_def handleTransferToCreditCard_def
        handleCreditCardPayment_def isNegative_def isZero_def
        enforceTransferCategoryRules_def exampleCreateDto_def example_lookups)

text \<open>
  C3, amended. On a store whose ids come from the counter and whose payment categories
  belong to their accounts' budgets, a transfer that \<open>createTransaction\<close> accepts
  persists exactly two rows, appended to the transactions: both are transfers with the
  same new group id, which no earlier row has, on the two different accounts of the
  request; the source row has the amount \<open>- |amount|\<close> and the destination row
  \<open>|amount|\<close>, negative and positive when the requested amount is not 0. For either row,
  \<open>deleteTransaction\<close> by the same user succeeds and removes both rows.
\<close>

theorem transfer_pair:
  assumes "createTransaction now u d s = (Inr r, s')" and "truthyBool (ct_isTransfer d)"
    and "freshIds s" and "paymentCategoriesInBudget s"
  shows "\<exists>src dst.
      r = Array [src, dst] \<and> transactions s' = transactions s @ [src, dst]
    \<and> tx_id src \<noteq> tx_id dst
    \<and> tx_isTransfer src \<and> tx_isTransfer dst
    \<and> tx_transferGroupId src = Some (nextId s) \<and> tx_transferGroupId dst = Some (nextId s)
    \<and> list_all (\<lambda>t. tx_transferGroupId t \<noteq> Some (nextId s)) (transactions s)
    \<and> tx_accountId src = ct_accountId d \<and> ct_transferAccountId d = Some (tx_accountId dst)
    \<and> tx_accountId src \<noteq> tx_accountId dst
    \<and> tx_amount src = - \<bar>ct_amount d\<bar> \<and> tx_amount dst = \<bar>ct_amount d\<bar>
    \<and> (ct_amount d \<noteq> 0 \<longrightarrow> tx_amount src < 0 \<and> 0 < tx_amount dst)
    \<and> (\<exists>s''. deleteTransaction u (tx_id src) s' = (Inr (), s'')
              \<and> transactions s'' = transactions s)
    \<and> (\<exists>s''. deleteTransaction u (tx_id dst) s' = (Inr (), s'')
              \<and> transactions s'' = transactions s)"
proof -
  from createTransaction_transfer_result [OF assms(1,2)] obtain src da k bud e where
    h: "findAccount s (ct_accountId d) = Some src"
       "budgets s (acc_budgetId src) = Some bud" "budget_userId bud = u"
       "ct_transferAccountId d = Some k" "k \<noteq> ct_accountId d"
       "findAccount s k = Some da" "acc_budgetId da = acc_budgetId src"
    and r: "r = Array (transferRows now d src da (nextId s))"
    and s': "s' = s\<lparr> transactions := transactions s @ transferRows now d src da (nextId s),
              nextId := Suc (Suc (Suc (nextId s))), budgetEntries := e \<rparr>"
    by blast
  obtain r1 r2 where rows: "transferRows now d src da (nextId s) = [r1, r2]"
    using transferRows_two by blast
  note f = transferRows_fields [OF rows]
  have ids: "acc_id src = ct_accountId d" "acc_id da = k"
    using h by (auto dest: findAccount_id)
  have tr: "tx_isTransfer r1" "tx_isTransfer r2"
    using f assms(2) by (simp_all add: truthyBool_def)
  have old: "\<forall>t\<in>set (transactions s). tx_id t \<noteq> Suc (nextId s)
      \<and> tx_id t \<noteq> Suc (Suc (nextId s)) \<and> tx_transferGroupId t \<noteq> Some (nextId s)"
    using freshIds_tx [OF assms(3)] by fastforce
  have ts: "transactions s' = transactions s @ [r1, r2]"
    by (simp add: s' rows)
  have pc: "categoryBudgetId s' pc = Some (acc_budgetId src)"
    if "acc_paymentCategoryId a = Some pc" "a = src \<or> a = da" for a pc
    using that paymentCategory_in_budget [OF assms(4) h(1)]
      paymentCategory_in_budget [OF assms(4) h(6)] h(7)
    by (auto simp: s')
  have acc: "findAccount s' (ct_accountId d) = Some src" "findAccount s' k = Some da"
    "budgets s' (acc_budgetId src) = Some bud"
    using h by (simp_all add: s')
  have find1: "find (\<lambda>t. tx_id t = tx_id r1) (transactions s') = Some r1"
    unfolding ts using old f by (subst find_append_new) auto
  have find2: "find (\<lambda>t. tx_id t = tx_id r2) (transactions s') = Some r2"
    unfolding ts using old f by (subst find_append_new) auto
  have pair1: "find (\<lambda>t. tx_transferGroupId t = Some (nextId s) \<and> tx_id t \<noteq> tx_id r1)
                 (transactions s') = Some r2"
    unfolding ts using old f by (subst find_append_new) auto
  have pair2: "find (\<lambda>t. tx_transferGroupId t = Some (nextId s) \<and> tx_id t \<noteq> tx_id r2)
                 (transactions s') = Some r1"
    unfolding ts using old f by (subst find_append_new) auto
  have gone: "filter (\<lambda>t. tx_id t \<noteq> i \<and> tx_id t \<noteq> j) (transactions s') = transactions s"
    if "{i, j} = {tx_id r1, tx_id r2}" for i j
  proof -
    have "\<forall>t\<in>set (transactions s). tx_id t \<noteq> i \<and> tx_id t \<noteq> j"
      using old f that by (auto simp: doubleton_eq_iff)
    then have "filter (\<lambda>t. tx_id t \<noteq> i \<and> tx_id t \<noteq> j) (transactions s @ [r1, r2])
        = transactions s @ filter (\<lambda>t. tx_id t \<noteq> i \<and> tx_id t \<noteq> j) [r1, r2]"
      by (intro filter_append_new) auto
    also have "filter (\<lambda>t. tx_id t \<noteq> i \<and> tx_id t \<noteq> j) [r1, r2] = []"
      using that by (auto simp: doubleton_eq_iff)
    finally show ?thesis by (simp add: ts)
  qed
  have del1: "\<exists>s''. deleteTransaction u (tx_id r1) s' = (Inr (), s'')
              \<and> transactions s'' = transactions s"
  proof -
    from deleteTransaction_transfer_row [where s = s' and r = r1 and r' = r2 and u = u
        and i = "tx_id r1" and g = "nextId s" and k = k and ?a1.0 = src and ?a2.0 = da
        and bud = bud]
    obtain s'' where "deleteTransaction u (tx_id r1) s' = (Inr (), s'')"
      "transactions s'' = filter (\<lambda>t. tx_id t \<noteq> tx_id r1 \<and> tx_id t \<noteq> tx_id r2) (transactions s')"
      using find1 pair1 acc h(3) tr f ids pc by auto
    then show ?thesis using gone [of "tx_id r1" "tx_id r2"] by auto
  qed
  have del2: "\<exists>s''. deleteTransaction u (tx_id r2) s' = (Inr (), s'')
              \<and> transactions s'' = transactions s"
  proof -
    from deleteTransaction_transfer_row [where s = s' and r = r2 and r' = r1 and u = u
        and i = "tx_id r2" and g = "nextId s" and k = "ct_accountId d" and ?a1.0 = da
        and ?a2.0 = src and bud = bud]
    obtain s'' where "deleteTransaction u (tx_id r2) s' = (Inr (), s'')"
      "transactions s'' = filter (\<lambda>t. tx_id t \<noteq> tx_id r2 \<and> tx_id t \<noteq> tx_id r1) (transactions s')"
      using find2 pair2 acc h(3) tr f ids pc by auto
    then show ?thesis using gone [of "tx_id r2" "tx_id r1"] by auto
  qed
  have grp: "list_all (\<lambda>t. tx_transferGroupId t \<noteq> Some (nextId s)) (transactions s)"
    using old by (simp add: list_all_iff)
  show ?thesis
    apply (rule exI [of _ r1], rule exI [of _ r2])
    using r rows ts f tr grp ids h(4,5) del1 del2 by simp
qed


lemma exampleStore_integrity:
  "freshIds exampleStore" "paymentCategoriesInBudget exampleStore"
  by (simp_all add: freshIds_def paymentCategoriesInBudget_def exampleStore_def
      categoryBudgetId_def)

theorem transfer_pair_witness:
  "\<exists>src dst s'.
      createTransaction april2024 7
        (exampleCreateDto\<lparr> ct_isTransfer := Some True, ct_transferAccountId := Some 21 \<rparr>)
        exampleStore = (Inr (Array [src, dst]), s')
    \<and> transactions s' = [src, dst]
    \<and> tx_transferGroupId src = Some 100 \<and> tx_transferGroupId dst = Some 100
    \<and> tx_accountId src = 20 \<and> tx_accountId dst = 21
    \<and> tx_amount src = - 50 \<and> tx_amount dst = 50
    \<and> fst (deleteTransaction 7 (tx_id src) s') = Inr ()
    \<and> transactions (snd (deleteTransaction 7 (tx_id src) s')) = []
    \<and> fst (deleteTransaction 7 (tx_id dst) s') = Inr ()
    \<and> transactions (snd (deleteTransaction 7 (tx_id dst) s')) = []"
proof -
  let ?d = "exampleCreateDto\<lparr> ct_isTransfer := Some True, ct_transferAccountId := Some 21 \<rparr>"
  have c11: "categoryBudgetId exampleStore 11 = Some 3"
    by (simp add: categoryBudgetId_def exampleStore_def)
  have "\<exists>r. fst (createTransaction april2024 7 ?d exampleStore) = Inr r"
    by (simp add: createTransaction_def Let_def dollar_transaction_def await_def
        findSourceAccount_def validateDestinationAccount_def resolve_def throw_def
        createRows_def transaction_create_def commonData_def truthyBool_def
        createSplitTransactions_def handleCcAdjustments_def handleTransferToCreditCard_def
        handleCreditCardPayment_ok c11
        enforceTransferCategoryRules_def exampleCreateDto_def example_lookups)
  then obtain r s' where c: "createTransaction april2024 7 ?d exampleStore = (Inr r, s')"
    by (metis prod.collapse)
  have t: "truthyBool (ct_isTransfer ?d)" by (simp add: truthyBool_def)
  from transfer_pair [OF c t exampleStore_integrity] obtain src dst where
    p: "r = Array [src, dst]" "transactions s' = transactions exampleStore @ [src, dst]"
       "tx_transferGroupId src = Some (nextId exampleStore)"
       "tx_transferGroupId dst = Some (nextId exampleStore)"
       "tx_accountId src = ct_accountId ?d" "ct_transferAccountId ?d = Some (tx_accountId dst)"
       "tx_amount src = - \<bar>ct_amount ?d\<bar>" "tx_amount dst = \<bar>ct_amount ?d\<bar>"
       "\<exists>s''. deleteTransaction 7 (tx_id src) s' = (Inr (), s'')
              \<and> transactions s'' = transactions exampleStore"
       "\<exists>s''. deleteTransaction 7 (tx_id dst) s' = (Inr (), s'')
              \<and> transactions s'' = transactions exampleStore"
    by blast
  show ?thesis
    apply (rule exI [of _ src], rule exI [of _ dst], rule exI [of _ s'])
    using c p by (auto simp: example_lookups exampleCreateDto_def)
qed

section \<open>Execution of createTransaction for a single transaction\<close>

lemma findOrCreatePayeeByName_frame:
  "findOrCreatePayeeByName b n s = Inr (p, s') \<Longrightarrow>
     \<exists>ps k. s' = s\<lparr>payees := ps, nextId := k\<rparr> \<and> nextId s \<le> k"
proof -
  assume a: "findOrCreatePayeeByName b n s = Inr (p, s')"
  have triv: "s = s\<lparr>payees := payees s, nextId := nextId s\<rparr>" by simp
  from a show ?thesis
    apply (simp add: findOrCreatePayeeByName_def throw_def Let_def
        split: if_splits option.splits)
     apply (metis Suc_n_not_le_n nat_le_linear)
    apply (metis triv order_refl)
    done
qed







lemma entriesOnly_resolve [intro!]: "entriesOnly (resolve x)"
  unfolding entriesOnly_def resolve_def
  by (metis Inr_inject prod.inject store.surjective store.update_convs(5))

lemma entriesOnly_throw [intro!]: "entriesOnly (throw e)"
  by (simp add: entriesOnly_def throw_def)

lemma entriesOnly_await [intro!]:
  assumes "entriesOnly m" "\<And>x. entriesOnly (f x)"
  shows "entriesOnly (await m f)"
  unfolding entriesOnly_def
proof (intro allI impI)
  fix s x s' assume a: "await m f s = Inr (x, s')"
  then obtain y s1 where 1: "m s = Inr (y, s1)" and 2: "f y s1 = Inr (x, s')"
    by (cases "m s") (auto simp: await_def)
  from assms(1) 1 obtain e1 where "s1 = s\<lparr>budgetEntries := e1\<rparr>"
    unfolding entriesOnly_def by blast
  moreover from assms(2) 2 obtain e2 where "s' = s1\<lparr>budgetEntries := e2\<rparr>"
    unfolding entriesOnly_def by blast
  ultimately have "s' = s\<lparr>budgetEntries := e2\<rparr>" by simp
  then show "\<exists>e. s' = s\<lparr>budgetEntries := e\<rparr>" by blast
qed

lemma entriesOnly_getOrCreate [intro!]: "entriesOnly (getOrCreateBudgetEntry b c y m)"
  unfolding entriesOnly_def by (blast dest: getOrCreate_cases)

lemma entriesOnly_increment [intro!]: "entriesOnly (increment k d)"
  unfolding entriesOnly_def increment_def by (auto split: option.splits)

lemma entriesOnly_decrement [intro!]: "entriesOnly (decrement k d)"
  unfolding entriesOnly_def decrement_def by (auto split: option.splits)

lemma entriesOnly_if [intro!]:
  "(c \<Longrightarrow> entriesOnly m) \<Longrightarrow> (\<not> c \<Longrightarrow> entriesOnly n) \<Longrightarrow> entriesOnly (if c then m else n)"
  by simp

lemma entriesOnly_handlers [intro!]:
  "entriesOnly (adjustBudgetsForCreditSpending b c pc a y m)"
  "entriesOnly (revertBudgetAdjustmentForCreditSpending b c pc a y m)"
  "entriesOnly (handleCreditCardPayment b pc a y m)"
  "entriesOnly (revertCreditCardPayment b pc a y m)"
  "entriesOnly (handleCreditCardRefundToCategory b c pc a y m)"
  "entriesOnly (revertCreditCardRefundToCategory b c pc a y m)"
  "entriesOnly (handleCreditCardRefundToTBB b pc a y m)"
  "entriesOnly (revertCreditCardRefundToTBB b pc a y m)"
  unfolding adjustBudgetsForCreditSpending_def revertBudgetAdjustmentForCreditSpending_def
    handleCreditCardPayment_def revertCreditCardPayment_def
    handleCreditCardRefundToCategory_def revertCreditCardRefundToCategory_def
    handleCreditCardRefundToTBB_def revertCreditCardRefundToTBB_def Let_def
  by blast+

lemma entriesOnly_state: "(\<And>s. entriesOnly (\<lambda>_. m s s)) \<Longrightarrow> entriesOnly (\<lambda>s. m s s)"
  unfolding entriesOnly_def by blast







section \<open>Properties of credit-card spending\<close>

lemma centsStore_lookups:
  "findAccount centsStore 21 = Some \<lparr> acc_id = 21, acc_type = CREDIT_CARD, acc_onBudget = True,
      acc_balance = 0, acc_clearedBalance = 0, acc_unclearedBalance = 0, acc_budgetId = 3,
      acc_paymentCategoryId = Some 11 \<rparr>"
  "budgets centsStore 3 = Some \<lparr> budget_userId = 7 \<rparr>"
  "nextId centsStore = 100"
  "transactions centsStore = []"
  "payees centsStore = []"
  "splitTransactions centsStore = []"
  "categoryBudgetId centsStore 10 = Some 3"
  "categoryBudgetId centsStore 11 = Some 3"
  by (simp_all add: centsStore_def exampleStore_def findAccount_def categoryBudgetId_def)

text \<open>
  C1. \<open>createTransaction\<close> does not lower the spending category by \<open>|amount|\<close> exactly.
  On the example ledger with 0.3 assigned to Groceries (10), an outflow of 0.1 in Groceries
  on the credit card (21, payment category 11) is stored, and the payment category is
  raised from nothing to 0.1, but Groceries is left with 0.19999999999999998 and not with
  0.3 - 0.1, because the database subtracts in binary floating point.
\<close>

theorem credit_spending_drift:
  "createTransaction april2024 7
       (exampleCreateDto\<lparr> ct_accountId := 21, ct_amount := - (1 / 10),
          ct_categoryId := Some 10 \<rparr>) centsStore
     = (Inr (Single ((exampleTransaction 100 21 (- (1 / 10)) UNCLEARED)
                       \<lparr> tx_approved := False, tx_categoryId := Some 10 \<rparr>)),
        centsStore\<lparr> budgetEntries :=
            [(10, 2024, 4) \<mapsto> 19999999999999998 / 10 ^ 17, (11, 2024, 4) \<mapsto> 1 / 10],
          transactions := [(exampleTransaction 100 21 (- (1 / 10)) UNCLEARED)
                             \<lparr> tx_approved := False, tx_categoryId := Some 10 \<rparr>],
          nextId := 101 \<rparr>)
   \<and> (19999999999999998 / 10 ^ 17 :: Decimal) \<noteq> 3 / 10 - \<bar>- (1 / 10)\<bar>"
  by (simp add: createTransaction_def Let_def dollar_transaction_def await_def
        findSourceAccount_def validateNonTransfer_def determinePayeeId_def
        validateCategory_def resolve_def throw_def uuid_def
        createRows_def transaction_create_def commonData_def truthyBool_def
        createSplitTransactions_def handleCcAdjustments_def handleTransferToCreditCard_def
        adjustBudgetsForCreditSpending_def isNegative_def isZero_def getOrCreate_ok
        getCcBudgetType_def assignedAmount_def
        sqliteSub_example sqliteAdd_example
        exampleCreateDto_def exampleTransaction_def april2024_def centsStore_lookups)
     (simp add: centsStore_def exampleStore_def sqliteSub_example sqliteAdd_example)

text \<open>
  C2. Creating a covered credit-card spend and deleting it does not bring the spending
  category back to its value. On the example ledger with 0.3 assigned to Groceries (10),
  an outflow of 0.03 in Groceries on the credit card (21, payment category 11) leaves 0.27
  in Groceries and 0.03 in the payment category; deleting the transaction brings the
  payment category back to 0, but Groceries to 0.30000000000000004 and not to 0.3,
  because the database subtracts and adds in binary floating point.
\<close>

theorem credit_spending_round_trip_drift:
  "createTransaction april2024 7
       (exampleCreateDto\<lparr> ct_accountId := 21, ct_amount := - (3 / 100),
          ct_categoryId := Some 10 \<rparr>) centsStore
     = (Inr (Single ((exampleTransaction 100 21 (- (3 / 100)) UNCLEARED)
                       \<lparr> tx_approved := False, tx_categoryId := Some 10 \<rparr>)),
        centsStore\<lparr> budgetEntries := [(10, 2024, 4) \<mapsto> 27 / 100, (11, 2024, 4) \<mapsto> 3 / 100],
          transactions := [(exampleTransaction 100 21 (- (3 / 100)) UNCLEARED)
                             \<lparr> tx_approved := False, tx_categoryId := Some 10 \<rparr>],
          nextId := 101 \<rparr>)
   \<and> deleteTransaction 7 100
       (centsStore\<lparr> budgetEntries := [(10, 2024, 4) \<mapsto> 27 / 100, (11, 2024, 4) \<mapsto> 3 / 100],
          transactions := [(exampleTransaction 100 21 (- (3 / 100)) UNCLEARED)
                             \<lparr> tx_approved := False, tx_categoryId := Some 10 \<rparr>],
          nextId := 101 \<rparr>)
     = (Inr (),
        centsStore\<lparr> budgetEntries :=
            [(10, 2024, 4) \<mapsto> 30000000000000004 / 10 ^ 17, (11, 2024, 4) \<mapsto> 0],
          nextId := 101 \<rparr>)
   \<and> assignedAmount centsStore 10 2024 4 = 3 / 10
   \<and> (30000000000000004 / 10 ^ 17 :: Decimal) \<noteq> 3 / 10"
proof -
  let ?t = "(exampleTransaction 100 21 (- (3 / 100)) UNCLEARED)
              \<lparr> tx_approved := False, tx_categoryId := Some 10 \<rparr>"
  let ?s' = "centsStore\<lparr> budgetEntries := [(10, 2024, 4) \<mapsto> 27 / 100, (11, 2024, 4) \<mapsto> 3 / 100],
          transactions := [?t], nextId := 101 \<rparr>"
  have 1: "createTransaction april2024 7
       (exampleCreateDto\<lparr> ct_accountId := 21, ct_amount := - (3 / 100),
          ct_categoryId := Some 10 \<rparr>) centsStore = (Inr (Single ?t), ?s')"
    by (simp add: createTransaction_def Let_def dollar_transaction_def await_def
        findSourceAccount_def validateNonTransfer_def determinePayeeId_def
        validateCategory_def resolve_def throw_def uuid_def
        createRows_def transaction_create_def commonData_def truthyBool_def
        createSplitTransactions_def handleCcAdjustments_def handleTransferToCreditCard_def
        adjustBudgetsForCreditSpending_def isNegative_def isZero_def getOrCreate_ok
        getCcBudgetType_def assignedAmount_def
        sqliteSub_example sqliteAdd_example
        exampleCreateDto_def exampleTransaction_def april2024_def centsStore_lookups)
       (simp add: centsStore_def exampleStore_def sqliteSub_example sqliteAdd_example)
  define t where "t = ?t"
  define s1 where "s1 = ?s'"
  define card where "card = \<lparr> acc_id = 21, acc_type = CREDIT_CARD, acc_onBudget = True,
      acc_balance = 0, acc_clearedBalance = 0, acc_unclearedBalance = 0, acc_budgetId = 3,
      acc_paymentCategoryId = Some 11 \<rparr>"
  have tf: "tx_id t = 100" "tx_accountId t = 21" "tx_budgetId t = 3" "\<not> tx_isTransfer t"
      "tx_amount t = - (3 / 100)" "tx_categoryId t = Some 10"
      "getFullYear (tx_date t) = 2024" "getMonth (tx_date t) = 3"
    by (simp_all add: t_def exampleTransaction_def)
  have sf: "transactions s1 = [t]" "splitTransactions s1 = []"
      "budgets s1 3 = Some \<lparr> budget_userId = 7 \<rparr>"
      "budgetEntries s1 = [(10, 2024, 4) \<mapsto> 27 / 100, (11, 2024, 4) \<mapsto> 3 / 100]"
    by (simp_all add: s1_def t_def centsStore_lookups)
  have c: "categoryBudgetId s1 10 = Some 3" "categoryBudgetId s1 11 = Some 3"
    by (simp_all add: s1_def centsStore_lookups)
  have f: "findAccount s1 21 = Some card"
    by (simp add: s1_def card_def centsStore_lookups)
  have d1: "findExistingTransaction 7 100 s1 = Inr (t, s1)"
    by (simp add: findExistingTransaction_def sf tf)
  have d2: "findPairedTransactionId t s1 = None"
    by (simp add: findPairedTransactionId_def tf)
  have d3: "revertBudgetAdjustments t (Some card) None 2024 4 s1
     = Inr ((), s1\<lparr> budgetEntries :=
            [(10, 2024, 4) \<mapsto> 30000000000000004 / 10 ^ 17, (11, 2024, 4) \<mapsto> 0] \<rparr>)"
    by (simp add: revertBudgetAdjustments_def tf card_def isNegative_def
        revertBudgetAdjustmentForCreditSpending_def isZero_def
        await_def getOrCreate_ok c Let_def assignedAmount_def sf
        sqliteSub_example sqliteAdd_example)
  have "deleteTransaction 7 100 s1
     = (Inr (), s1\<lparr> budgetEntries :=
            [(10, 2024, 4) \<mapsto> 30000000000000004 / 10 ^ 17, (11, 2024, 4) \<mapsto> 0],
          splitTransactions := [], transactions := [] \<rparr>)"
    unfolding deleteTransaction_def dollar_transaction_def
    by (simp add: await_def d1 d2 Let_def tf f d3 deleteMany_def sf)
  then have 2: "deleteTransaction 7 100 ?s'
     = (Inr (), centsStore\<lparr> budgetEntries :=
            [(10, 2024, 4) \<mapsto> 30000000000000004 / 10 ^ 17, (11, 2024, 4) \<mapsto> 0],
          nextId := 101 \<rparr>)"
    by (simp add: s1_def centsStore_def exampleStore_def)
  have 3: "assignedAmount centsStore 10 2024 4 = 3 / 10"
    by (simp add: assignedAmount_def centsStore_def)
  from 1 2 3 show ?thesis by simp
qed

section \<open>Properties of split transactions\<close>








section \<open>Properties of updateTransaction\<close>

lemma getCcBudgetType_unlinked:
  "\<not> isLinkedCreditCard a \<Longrightarrow> getCcBudgetType t a = NONE"
  by (auto simp: isLinkedCreditCard_def getCcBudgetType_def split: option.splits)

lemma findTransactionWithAccount_Inr:
  "findTransactionWithAccount u i s = Inr ((old, acc), s') \<Longrightarrow>
     s' = s \<and> find (\<lambda>t. tx_id t = i) (transactions s) = Some old
     \<and> findAccount s (tx_accountId old) = Some acc"
  by (auto simp: findTransactionWithAccount_def split: option.splits if_splits)

lemma payeeUpdate_frame:
  assumes "payeeUpdate b d s = Inr (p, s')"
  shows "\<exists>ps k. s' = s\<lparr>payees := ps, nextId := k\<rparr>"
proof -
  have triv: "\<exists>ps k. s = s\<lparr>payees := ps, nextId := k\<rparr>"
    by (rule exI [of _ "payees s"], rule exI [of _ "nextId s"]) simp
  from assms triv show ?thesis
    by (auto simp: payeeUpdate_def resolve_def await_def
        split: if_splits field.splits sum.splits dest!: findOrCreatePayeeByName_frame)
qed

lemma categoryUpdate_Inr:
  "categoryUpdate b t d s = Inr (c, s') \<Longrightarrow> s' = s"
  by (auto simp: categoryUpdate_def resolve_def await_def validateCategory_def
      split: if_splits field.splits sum.splits)

lemma accountUpdate_Inr:
  "accountUpdate b t acc d s = Inr ((k, fin), s') \<Longrightarrow>
     findAccount s (tx_accountId t) = Some acc \<Longrightarrow>
     s' = s \<and> findAccount s k = Some fin"
  by (auto simp: accountUpdate_def resolve_def split: option.splits if_splits
      dest: findAccount_id)

lemma transaction_update_Inr:
  "transaction_update old d p c k s = Inr (r, s') \<Longrightarrow>
     tx_accountId r = k \<and> tx_id r = tx_id old
     \<and> s' = s\<lparr>transactions := map (\<lambda>t. if tx_id t = tx_id old then r else t) (transactions s)\<rparr>"
  by (auto simp: transaction_update_def Let_def split: if_splits)


lemma findOrCreatePayeeByName_appends:
  "findOrCreatePayeeByName b n s = Inr (p, s') \<Longrightarrow>
     \<exists>ps. length ps \<le> 1 \<and> s' = s\<lparr>payees := payees s @ ps, nextId := nextId s + length ps\<rparr>"
proof -
  assume a: "findOrCreatePayeeByName b n s = Inr (p, s')"
  have triv: "s = s\<lparr>payees := payees s @ [], nextId := nextId s + length ([] :: Payee list)\<rparr>"
    by simp
  from a show ?thesis
    apply (simp add: findOrCreatePayeeByName_def throw_def Let_def
        split: if_splits option.splits)
     apply (rule exI [of _ "[\<lparr>payee_id = nextId s, payee_name = trim n, payee_budgetId = b\<rparr>]"])
     apply auto[1]
    apply (rule exI [of _ "[]"])
    apply auto
    done
qed

lemma payeeUpdate_appends:
  assumes "payeeUpdate b d s = Inr (p, s')"
  shows "\<exists>ps. length ps \<le> 1 \<and> s' = s\<lparr>payees := payees s @ ps, nextId := nextId s + length ps\<rparr>"
proof -
  have triv: "\<exists>ps. length ps \<le> 1 \<and> s = s\<lparr>payees := payees s @ ps, nextId := nextId s + length ps\<rparr>"
    by (rule exI [of _ "[]"]) simp
  from assms triv show ?thesis
    by (auto simp: payeeUpdate_def resolve_def await_def
        split: if_splits field.splits sum.splits dest!: findOrCreatePayeeByName_appends)
qed

text \<open>
  C10, as stated, fails in its middle part: an update that names a payee not yet in the
  budget creates a Payee row, so the transaction row is not the only row that changes.
  The transaction 50 is on the checking account 20.
\<close>

theorem update_creates_payee_counterexample:
  "fst (updateTransaction 7 50 (exampleUpdateDto\<lparr> ut_payeeName := Defined ''Shop'' \<rparr>)
          (exampleStore\<lparr> transactions := [exampleTransaction 50 20 (- 60) CLEARED] \<rparr>))
     = Inr ((exampleTransaction 50 20 (- 60) CLEARED)\<lparr> tx_payeeId := Some 100 \<rparr>)
   \<and> payees (snd (updateTransaction 7 50 (exampleUpdateDto\<lparr> ut_payeeName := Defined ''Shop'' \<rparr>)
          (exampleStore\<lparr> transactions := [exampleTransaction 50 20 (- 60) CLEARED] \<rparr>)))
     = [\<lparr> payee_id = 100, payee_name = ''Shop'', payee_budgetId = 3 \<rparr>]
   \<and> payees (exampleStore\<lparr> transactions := [exampleTransaction 50 20 (- 60) CLEARED] \<rparr>) = []"
proof -
  have tr: "trim ''Shop'' = ''Shop''" by (simp add: trim_def isWhiteSpace_def)
  show ?thesis
    by (simp add: updateTransaction_def dollar_transaction_def await_def
        findTransactionWithAccount_def payeeUpdate_def findOrCreatePayeeByName_def tr
        categoryUpdate_def accountUpdate_def transaction_update_def getCcBudgetType_def
        revertOldAdjustment_def applyNewAdjustment_def resolve_def Let_def
        exampleUpdateDto_def exampleTransaction_def example_lookups)
qed

text \<open>
  C10, amended. When \<open>updateTransaction\<close> succeeds and neither the account of the
  transaction before the update nor its account after the update is a credit card with a
  linked payment category, the budget entries are unchanged, so no entry is created or
  modified and every assigned amount is as before. In the transactions only the row with
  the given id changes: it becomes the returned row. Apart from that, at most one Payee
  row is appended (a payee found or created by name) with the id counter advanced by as
  much; every other table is unchanged.
\<close>

theorem update_without_credit_card_frame:
  assumes "updateTransaction u i d s = (Inr r, s')"
    and "find (\<lambda>t. tx_id t = i) (transactions s) = Some old"
    and "\<not> isLinkedCreditCard (findAccount s (tx_accountId old))"
    and "\<not> isLinkedCreditCard (findAccount s (tx_accountId r))"
  shows "budgetEntries s' = budgetEntries s
       \<and> assignedAmount s' = assignedAmount s
       \<and> transactions s' = map (\<lambda>t. if tx_id t = i then r else t) (transactions s)
       \<and> (\<exists>ps. length ps \<le> 1
             \<and> s' = s\<lparr> payees := payees s @ ps,
                       transactions := map (\<lambda>t. if tx_id t = i then r else t) (transactions s),
                       nextId := nextId s + length ps \<rparr>)"
proof -
  note c = assms(1) [unfolded updateTransaction_def dollar_transaction_def Let_def]
  obtain ex acc s0 where 1: "findTransactionWithAccount u i s = Inr ((ex, acc), s0)"
    using c by (cases "findTransactionWithAccount u i s") (auto simp: await_def)
  from findTransactionWithAccount_Inr [OF 1] assms(2) have s0: "s0 = s" and ex: "ex = old"
    and acc: "findAccount s (tx_accountId old) = Some acc"
    by simp_all
  have idold: "tx_id old = i" using assms(2) by (auto simp: find_Some_iff)
  let ?b = "tx_budgetId old"
  obtain p s1 where 2: "payeeUpdate ?b d s = Inr (p, s1)"
    using c 1 by (cases "payeeUpdate ?b d s") (auto simp: await_def s0 ex)
  from payeeUpdate_appends [OF 2] obtain ps where
    ps: "length ps \<le> 1" "s1 = s\<lparr>payees := payees s @ ps, nextId := nextId s + length ps\<rparr>"
    by blast
  obtain cu s2 where 3: "categoryUpdate ?b old d s1 = Inr (cu, s2)"
    using c 1 2 by (cases "categoryUpdate ?b old d s1") (auto simp: await_def s0 ex)
  from categoryUpdate_Inr [OF 3] have s2: "s2 = s1" .
  obtain k fin s3 where 4: "accountUpdate ?b old acc d s1 = Inr ((k, fin), s3)"
    using c 1 2 3
    by (cases "accountUpdate ?b old acc d s1") (auto simp: await_def s0 ex s2)
  have acc1: "findAccount s1 (tx_accountId old) = Some acc" using acc by (simp add: ps)
  from accountUpdate_Inr [OF 4 acc1] have s3: "s3 = s1" and fin: "findAccount s k = Some fin"
    by (simp_all add: ps)
  have ns: "\<not> (ut_amount d \<noteq> None \<and> tx_isSplit old)"
    using c 1 2 3 4 by (auto simp: await_def s0 ex s2 s3 throw_def)
  obtain r' s4 where 5: "transaction_update old d p cu k s1 = Inr (r', s4)"
    using c 1 2 3 4 ns
    by (cases "transaction_update old d p cu k s1") (auto simp: await_def s0 ex s2 s3)
  from transaction_update_Inr [OF 5] have r': "tx_accountId r' = k"
    and s4: "s4 = s1\<lparr>transactions := map (\<lambda>t. if tx_id t = i then r' else t) (transactions s1)\<rparr>"
    by (simp_all add: idold)
  have old_none: "getCcBudgetType old (Some acc) = NONE"
    using assms(3) acc by (simp add: getCcBudgetType_unlinked)
  have rr: "r = r'"
    using c 1 2 3 4 5 ns
    by (auto simp: await_def s0 ex s2 s3 resolve_def split: sum.splits)
  have new_none: "getCcBudgetType r' (Some fin) = NONE"
    using assms(4) fin r' by (simp add: getCcBudgetType_unlinked rr)
  have s': "s' = s4"
    using c 1 2 3 4 5 ns old_none new_none
    by (auto simp: await_def s0 ex s2 s3 revertOldAdjustment_def
          applyNewAdjustment_def resolve_def)
  have full: "s' = s\<lparr> payees := payees s @ ps,
                       transactions := map (\<lambda>t. if tx_id t = i then r else t) (transactions s),
                       nextId := nextId s + length ps \<rparr>"
    by (simp add: s' s4 ps rr)
  have "budgetEntries s' = budgetEntries s" by (simp add: full)
  moreover have "assignedAmount s' = assignedAmount s"
    by (simp add: full assignedAmount_def fun_eq_iff)
  moreover have "transactions s' = map (\<lambda>t. if tx_id t = i then r else t) (transactions s)"
    by (simp add: full)
  ultimately show ?thesis using ps(1) full by blast
qed


theorem update_without_credit_card_frame_witness:
  "\<exists>r s'. updateTransaction 7 50
        (exampleUpdateDto\<lparr> ut_amount := Some (- 80), ut_categoryId := Defined 12,
            ut_accountId := Some 22 \<rparr>)
        (exampleStore\<lparr> transactions :=
           [(exampleTransaction 50 20 (- 60) CLEARED)\<lparr> tx_categoryId := Some 10 \<rparr>] \<rparr>)
      = (Inr r, s')
    \<and> tx_amount r = - 80 \<and> tx_categoryId r = Some 12 \<and> tx_accountId r = 22
    \<and> transactions s' = [r]
    \<and> budgetEntries s' = [(10, 2024, 4) \<mapsto> 200, (12, 2024, 4) \<mapsto> 30]"
proof -
  let ?d = "exampleUpdateDto\<lparr> ut_amount := Some (- 80), ut_categoryId := Defined 12,
            ut_accountId := Some 22 \<rparr>"
  let ?old = "(exampleTransaction 50 20 (- 60) CLEARED)\<lparr> tx_categoryId := Some 10 \<rparr>"
  let ?s = "exampleStore\<lparr> transactions := [?old] \<rparr>"
  have c: "categoryBudgetId exampleStore 12 = Some 3"
    by (simp add: categoryBudgetId_def exampleStore_def)
  have "\<exists>r. fst (updateTransaction 7 50 ?d ?s) = Inr r
      \<and> tx_amount r = - 80 \<and> tx_categoryId r = Some 12 \<and> tx_accountId r = 22"
    by (simp add: updateTransaction_def dollar_transaction_def await_def
        findTransactionWithAccount_def payeeUpdate_def validateCategory_def c
        categoryUpdate_def accountUpdate_def transaction_update_def getCcBudgetType_def
        revertOldAdjustment_def applyNewAdjustment_def resolve_def Let_def
        exampleUpdateDto_def exampleTransaction_def example_lookups)
  then obtain r s' where r: "updateTransaction 7 50 ?d ?s = (Inr r, s')"
    and f: "tx_amount r = - 80" "tx_categoryId r = Some 12" "tx_accountId r = 22"
    by (metis prod.collapse)
  have o: "find (\<lambda>t. tx_id t = 50) (transactions ?s) = Some ?old"
    by (simp add: exampleTransaction_def)
  have n: "\<not> isLinkedCreditCard (findAccount ?s (tx_accountId ?old))"
      "\<not> isLinkedCreditCard (findAccount ?s (tx_accountId r))"
    by (simp_all add: f isLinkedCreditCard_def exampleTransaction_def example_lookups)
  from update_without_credit_card_frame [OF r o n]
  have "budgetEntries s' = budgetEntries ?s"
    "transactions s' = map (\<lambda>t. if tx_id t = 50 then r else t) (transactions ?s)"
    by simp_all
  then have "transactions s' = [r]"
    "budgetEntries s' = [(10, 2024, 4) \<mapsto> 200, (12, 2024, 4) \<mapsto> 30]"
    by (simp_all add: exampleTransaction_def exampleStore_def)
  with r f show ?thesis by blast
qed

end
